theory Spec2Isabelle
  imports Main "HOL-Library.Multiset"
begin

section \<open>Strings\<close>

text \<open>
  Go strings are byte sequences; they are modelled as \<^typ>\<open>string\<close>, one
  \<^typ>\<open>char\<close> per byte. \<open>len(s)\<close> is \<^const>\<open>length\<close> and \<open>s[:n]\<close>
  is \<^const>\<open>take\<close>.
\<close>

definition byte :: "char \<Rightarrow> nat" where
  "byte c = of_char c"

text \<open>
  \<open>strings.ToLower\<close> and \<open>strings.TrimSpace\<close> on ASCII text: \<open>A\<close> to \<open>Z\<close>
  are lowered, and tab, line feed, vertical tab, form feed, carriage return and space are
  trimmed. These are what the two library functions do on a string all of whose bytes
  are below \<open>0x80\<close>.
\<close>

definition asciiLowerChar :: "char \<Rightarrow> char" where
  "asciiLowerChar c = (if 65 \<le> byte c \<and> byte c \<le> 90 then char_of (byte c + 32) else c)"

definition asciiToLower :: "string \<Rightarrow> string" where
  "asciiToLower s = map asciiLowerChar s"

definition asciiSpace :: "char \<Rightarrow> bool" where
  "asciiSpace c = (byte c = 32 \<or> (9 \<le> byte c \<and> byte c \<le> 13))"

definition asciiTrimSpace :: "string \<Rightarrow> string" where
  "asciiTrimSpace s = rev (dropWhile asciiSpace (rev (dropWhile asciiSpace s)))"

definition isASCII :: "string \<Rightarrow> bool" where
  "isASCII s = list_all (\<lambda>c. byte c < 128) s"

text \<open>
  \<open>utf8.DecodeRuneInString\<close>: the first code point of a string and the number of bytes
  it takes. A byte that starts no well-formed sequence (a stray continuation byte, an
  overlong form, a surrogate, a value beyond \<open>U+10FFFF\<close>, a sequence cut short) is
  decoded as \<open>utf8.RuneError\<close> of width 1.
\<close>

definition RuneError :: nat where
  "RuneError = 65533"

fun DecodeRuneInString :: "string \<Rightarrow> nat \<times> nat" where
  "DecodeRuneInString [] = (RuneError, 0)"
| "DecodeRuneInString (c0 # cs) =
     (let s0 = byte c0 in
      if s0 < 128 then (s0, 1)
      else if s0 < 194 \<or> 244 < s0 then (RuneError, 1)
      else
        let sz = (if s0 < 224 then 2 else if s0 < 240 then 3 else 4);
            lo = (if s0 = 224 then 160 else if s0 = 240 then 144 else 128);
            hi = (if s0 = 237 then 159 else if s0 = 244 then 143 else 191)
        in if Suc (length cs) < sz then (RuneError, 1)
           else
             let s1 = byte (cs ! 0) in
             if s1 < lo \<or> hi < s1 then (RuneError, 1)
             else if sz \<le> 2 then ((s0 mod 32) * 64 + s1 mod 64, 2)
             else
               let s2 = byte (cs ! 1) in
               if s2 < 128 \<or> 191 < s2 then (RuneError, 1)
               else if sz \<le> 3 then ((s0 mod 16) * 4096 + (s1 mod 64) * 64 + s2 mod 64, 3)
               else
                 let s3 = byte (cs ! 2) in
                 if s3 < 128 \<or> 191 < s3 then (RuneError, 1)
                 else ((s0 mod 8) * 262144 + (s1 mod 64) * 4096 + (s2 mod 64) * 64 + s3 mod 64, 4))"

text \<open>The code points of a string, as \<open>for _, c := range s\<close> visits them.\<close>

fun runes :: "string \<Rightarrow> nat list" where
  "runes [] = []"
| "runes (c # cs) =
     fst (DecodeRuneInString (c # cs)) # runes (drop (snd (DecodeRuneInString (c # cs)) - 1) cs)"

text \<open>
  \<open>utf8.AppendRune\<close>: the UTF-8 form of a code point; a surrogate and a value beyond
  \<open>U+10FFFF\<close> are written as \<open>utf8.RuneError\<close>.
\<close>

definition threeBytes :: "nat \<Rightarrow> string" where
  "threeBytes r =
     [char_of (224 + r div 4096), char_of (128 + (r div 64) mod 64), char_of (128 + r mod 64)]"

definition AppendRune :: "nat \<Rightarrow> string" where
  "AppendRune r =
     (if r \<le> 127 then [char_of r]
      else if r \<le> 2047 then [char_of (192 + r div 64), char_of (128 + r mod 64)]
      else if 1114111 < r \<or> (55296 \<le> r \<and> r \<le> 57343) then threeBytes RuneError
      else if r \<le> 65535 then threeBytes r
      else [char_of (240 + r div 262144), char_of (128 + (r div 4096) mod 64),
            char_of (128 + (r div 64) mod 64), char_of (128 + r mod 64)])"

text \<open>
  \<open>strings.ToLower\<close>. A string of ASCII bytes is lowered byte by byte; any other string
  goes through \<open>strings.Map(unicode.ToLower, s)\<close>, which decodes each code point, maps
  it and writes it back. The case table of package \<open>unicode\<close> is the argument
  \<open>lower\<close>; no code point is mapped to a negative value, so none is dropped.
\<close>

definition ToLower :: "(nat \<Rightarrow> nat) \<Rightarrow> string \<Rightarrow> string" where
  "ToLower lower s =
     (if isASCII s then asciiToLower s else concat (map (\<lambda>r. AppendRune (lower r)) (runes s)))"

text \<open>
  \<open>unicode.ToLower\<close> on Basic Latin and the Latin-1 Supplement: \<open>A\<close> to \<open>Z\<close>, and
  \<open>U+00C0\<close> to \<open>U+00DE\<close> without the multiplication sign \<open>U+00D7\<close>, go to the code
  point 32 above; the other code points up to \<open>U+00FF\<close> stay. The table beyond
  \<open>U+00FF\<close> is the argument \<open>beyond\<close>.
\<close>

definition unicodeToLower :: "(nat \<Rightarrow> nat) \<Rightarrow> nat \<Rightarrow> nat" where
  "unicodeToLower beyond r =
     (if 255 < r then beyond r
      else if (65 \<le> r \<and> r \<le> 90) \<or> (192 \<le> r \<and> r \<le> 222 \<and> r \<noteq> 215) then r + 32
      else r)"

text \<open>
  SQLite's built-in \<open>LOWER\<close>, which the program's driver uses as it is: it lowers the
  ASCII letters of the text and leaves every other byte.
\<close>

definition sqliteLower :: "string \<Rightarrow> string" where
  "sqliteLower s = map asciiLowerChar s"

text \<open>\<open>strings.Trim(s, cutset)\<close>: drop the leading and the trailing bytes that are in the cutset.\<close>

definition trimCutset :: "string \<Rightarrow> string \<Rightarrow> string" where
  "trimCutset s cutset =
     rev (dropWhile (\<lambda>c. c \<in> set cutset) (rev (dropWhile (\<lambda>c. c \<in> set cutset) s)))"

section \<open>Panics\<close>

text \<open>
  A call either returns or panics. The program panics in two ways: on the dereference of
  a nil pointer, and inside \<open>runtime.DeepCopyJSONValue\<close>.
\<close>

datatype panic = NilPointerDereference | CannotDeepCopy

datatype 'a result = Done 'a | Panic panic

section \<open>The sync job: object names\<close>

text \<open>
  \<open>dns1123InvalidChars = regexp.MustCompile(`[^a-z0-9-.]+`)\<close>. A byte is outside the
  class exactly when it is none of \<open>a-z\<close>, \<open>0-9\<close>, \<open>-\<close>, \<open>.\<close>; every byte of a
  code point beyond ASCII is outside it, so a run of such code points is a run of such bytes.
\<close>

definition dns1123Char :: "char \<Rightarrow> bool" where
  "dns1123Char c =
     ((97 \<le> byte c \<and> byte c \<le> 122) \<or> (48 \<le> byte c \<and> byte c \<le> 57)
      \<or> c = CHR ''-'' \<or> c = CHR ''.'')"

text \<open>\<open>dns1123InvalidChars.ReplaceAllString(s, "-")\<close>: each maximal run of invalid bytes becomes one \<open>-\<close>.\<close>

function replaceInvalidRuns :: "string \<Rightarrow> string" where
  "replaceInvalidRuns [] = []"
| "replaceInvalidRuns (c # cs) =
     (if dns1123Char c then c # replaceInvalidRuns cs
      else CHR ''-'' # replaceInvalidRuns (dropWhile (\<lambda>d. \<not> dns1123Char d) cs))"
  by pat_completeness auto
termination
  by (relation "measure length") (auto simp: length_dropWhile_le less_Suc_eq_le)

text \<open>
  \<open>sanitizeName\<close> of the sync job. The two library calls \<open>strings.ToLower\<close> and
  \<open>strings.TrimSpace\<close> are its first two arguments.
\<close>

definition sanitizeName :: "(string \<Rightarrow> string) \<Rightarrow> (string \<Rightarrow> string) \<Rightarrow> string \<Rightarrow> string" where
  "sanitizeName toLower trimSpace s =
     (if s = [] then ''unnamed''
      else
        let s1 = toLower (trimSpace s);
            s2 = replaceInvalidRuns s1;
            s3 = trimCutset s2 ''-.''
        in if s3 = [] then ''unnamed''
           else
             let s4 = (if length s3 > 63 then trimCutset (take 63 s3) ''-.'' else s3)
             in if s4 = [] then ''unnamed'' else s4)"

section \<open>The database\<close>

text \<open>
  \<open>gorm.Model\<close> gives every table a primary key \<open>ID\<close> and a soft-delete stamp
  \<open>DeletedAt\<close>; a row whose stamp is set is invisible to \<open>First\<close>, \<open>Find\<close> and
  \<open>Preload\<close>. The creation and update stamps, and the columns of a table that no
  function below reads, are left out. Keys are Go \<open>uint\<close>; no function computes with
  them beyond comparing them and taking the next one, so they are natural numbers.
\<close>

record Model =
  ID :: nat
  DeletedAt :: "nat option"

record Company = Model +
  CompanyName :: string

record Maintainer = Model +
  MaintainerName :: string
  Email :: string
  GitHubAccount :: string
  GitHubEmail :: string
  CompanyID :: "nat option"
  MaintainerCompany :: Company

record Project = Model +
  ProjectName :: string
  ParentProjectID :: "nat option"
  Maturity :: string
  MaintainerRef :: string
  OnboardingIssue :: "string option"
  MailingList :: "string option"
  Maintainers :: "Maintainer list"

text \<open>A row of the join table \<open>maintainer_projects\<close>.\<close>

record MaintainerProject =
  MaintainerID :: nat
  ProjectID :: nat

record Collaborator = Model +
  CollaboratorName :: string
  CollaboratorEmail :: string
  CollaboratorGitHubAccount :: "string option"

text \<open>
  The service tables. \<open>ServiceTeamID\<close> of a team and \<open>ServiceUserID\<close> of a user are
  the identifiers on the remote service (Go \<open>int\<close>); the other keys are \<open>uint\<close>.
  Fields whose name another table uses too carry the table's name in front.
\<close>

record ServiceTeam = Model +
  TeamProjectID :: nat
  TeamServiceID :: nat
  ServiceTeamID :: int
  ServiceTeamName :: "string option"
  TeamProjectName :: "string option"

record ServiceUser = Model +
  UserServiceID :: nat
  ServiceUserID :: int
  ServiceEmail :: string
  ServiceGitHubName :: "string option"

record Service = Model +
  ServiceName :: string
  Description :: string

record ServiceUserTeams = Model +
  LinkServiceID :: nat
  LinkServiceUserID :: int
  LinkServiceTeamID :: nat
  LinkMaintainerID :: "nat option"
  LinkCollaboratorID :: "nat option"

text \<open>
  The database a \<open>*gorm.DB\<close> is connected to: the rows of each table in storage order,
  and whether the connection answers at all. On a connection that does not answer every
  statement returns the driver's error.
\<close>

record database =
  companies :: "Company list"
  maintainers :: "Maintainer list"
  projects :: "Project list"
  maintainer_projects :: "MaintainerProject list"
  services :: "Service list"
  service_teams :: "ServiceTeam list"
  service_user_teams :: "ServiceUserTeams list"
  unavailable :: bool

datatype dbError = ErrRecordNotFound | ErrDriver | ErrConstraint | ErrInvalidValue

definition live :: "'a Model_scheme \<Rightarrow> bool" where
  "live r = (DeletedAt r = None)"

text \<open>\<open>ORDER BY id LIMIT 1\<close>: the row with the least primary key.\<close>

fun leastID :: "'a Model_scheme list \<Rightarrow> 'a Model_scheme option" where
  "leastID [] = None"
| "leastID (r # rs) =
     (case leastID rs of
        None \<Rightarrow> Some r
      | Some r' \<Rightarrow> if ID r \<le> ID r' then Some r else Some r')"

text \<open>
  \<open>db.Where(cond).First(&row)\<close> on a table: the visible row with the least primary key
  that satisfies the condition, \<open>ErrRecordNotFound\<close> when there is none.
\<close>

definition gormFirst ::
  "bool \<Rightarrow> ('a Model_scheme \<Rightarrow> bool) \<Rightarrow> 'a Model_scheme list \<Rightarrow> dbError + 'a Model_scheme" where
  "gormFirst down cond rows =
     (if down then Inl ErrDriver
      else case leastID (filter (\<lambda>r. cond r \<and> live r) rows) of
             None \<Rightarrow> Inl ErrRecordNotFound
           | Some r \<Rightarrow> Inr r)"

subsection \<open>Matching a FOSSA user to a registered maintainer\<close>

text \<open>
  \<open>MapFossaUserToMaintainer\<close>. \<open>sqlLower\<close> is SQL's \<open>LOWER\<close> and \<open>toLower\<close> is
  \<open>strings.ToLower\<close>. The result is the \<open>*model.Maintainer\<close>, \<open>None\<close> for \<open>nil\<close>.
\<close>

definition handleCond :: "(string \<Rightarrow> string) \<Rightarrow> (string \<Rightarrow> string) \<Rightarrow> string \<Rightarrow> Maintainer \<Rightarrow> bool" where
  "handleCond sqlLower toLower github m = (sqlLower (GitHubAccount m) = toLower github)"

definition emailCond :: "(string \<Rightarrow> string) \<Rightarrow> (string \<Rightarrow> string) \<Rightarrow> string \<Rightarrow> Maintainer \<Rightarrow> bool" where
  "emailCond sqlLower toLower email m =
     (sqlLower (Email m) = toLower email \<or> sqlLower (GitHubEmail m) = toLower email)"

definition emailLookup ::
  "(string \<Rightarrow> string) \<Rightarrow> (string \<Rightarrow> string) \<Rightarrow> database \<Rightarrow> string \<Rightarrow> Maintainer option" where
  "emailLookup sqlLower toLower db email =
     (case gormFirst (unavailable db) (emailCond sqlLower toLower email) (maintainers db) of
        Inr m \<Rightarrow> Some m
      | Inl err \<Rightarrow> if err \<noteq> ErrRecordNotFound then None else None)"

definition MapFossaUserToMaintainer ::
  "(string \<Rightarrow> string) \<Rightarrow> (string \<Rightarrow> string) \<Rightarrow> database \<Rightarrow> string \<Rightarrow> string \<Rightarrow> Maintainer option" where
  "MapFossaUserToMaintainer sqlLower toLower db email github =
     (if github \<noteq> [] then
        (case gormFirst (unavailable db) (handleCond sqlLower toLower github) (maintainers db) of
           Inr m \<Rightarrow> Some m
         | Inl err \<Rightarrow>
             if err \<noteq> ErrRecordNotFound then None
             else emailLookup sqlLower toLower db email)
      else emailLookup sqlLower toLower db email)"

subsection \<open>The store\<close>

datatype storeError = ErrProjectNotFound | ErrQuery dbError

text \<open>
  \<open>Preload("Maintainers.Company")\<close>: the visible maintainers that the join table links to
  the project, each with its visible company filled in.
\<close>

definition preloadCompany :: "database \<Rightarrow> Maintainer \<Rightarrow> Maintainer" where
  "preloadCompany db m =
     (case CompanyID m of
        None \<Rightarrow> m
      | Some cid \<Rightarrow>
          (case filter (\<lambda>c. ID c = cid \<and> live c) (companies db) of
             [] \<Rightarrow> m
           | c # _ \<Rightarrow> m\<lparr>MaintainerCompany := c\<rparr>))"

definition linkedTo :: "database \<Rightarrow> nat \<Rightarrow> Maintainer \<Rightarrow> bool" where
  "linkedTo db pid m =
     (\<exists>j \<in> set (maintainer_projects db). MaintainerID j = ID m \<and> ProjectID j = pid)"

definition preloadMaintainers :: "database \<Rightarrow> nat \<Rightarrow> Maintainer list" where
  "preloadMaintainers db pid =
     map (preloadCompany db) (filter (\<lambda>m. live m \<and> linkedTo db pid m) (maintainers db))"

text \<open>\<open>SQLStore.GetMaintainersByProject\<close>; the left summand is the error with a nil slice.\<close>

definition GetMaintainersByProject :: "database \<Rightarrow> nat \<Rightarrow> storeError + Maintainer list" where
  "GetMaintainersByProject db projectID =
     (case gormFirst (unavailable db) (\<lambda>p. ID p = projectID) (projects db) of
        Inl err \<Rightarrow>
          if err = ErrRecordNotFound then Inl ErrProjectNotFound else Inl (ErrQuery err)
      | Inr project \<Rightarrow> Inr (preloadMaintainers db (ID project)))"

text \<open>
  What the specification calls a match: some visible maintainer satisfies the condition,
  and the one meant is the visible maintainer with the least primary key that does.
  Equal case-insensitively is read as equal once the ASCII letters of both texts are
  lowered.
\<close>

definition equalsIgnoringCase :: "string \<Rightarrow> string \<Rightarrow> bool" where
  "equalsIgnoringCase a b = (asciiToLower a = asciiToLower b)"

definition handleEquals :: "string \<Rightarrow> Maintainer \<Rightarrow> bool" where
  "handleEquals github m = equalsIgnoringCase (GitHubAccount m) github"

definition emailEquals :: "string \<Rightarrow> Maintainer \<Rightarrow> bool" where
  "emailEquals email m =
     (equalsIgnoringCase (Email m) email \<or> equalsIgnoringCase (GitHubEmail m) email)"

definition someMatch :: "(Maintainer \<Rightarrow> bool) \<Rightarrow> database \<Rightarrow> bool" where
  "someMatch cond db = (\<exists>m \<in> set (maintainers db). live m \<and> cond m)"

definition firstMatch :: "(Maintainer \<Rightarrow> bool) \<Rightarrow> database \<Rightarrow> Maintainer \<Rightarrow> bool" where
  "firstMatch cond db m =
     (m \<in> set (maintainers db) \<and> live m \<and> cond m
      \<and> (\<forall>m' \<in> set (maintainers db). live m' \<and> cond m' \<longrightarrow> ID m \<le> ID m'))"


subsection \<open>The fixture of the store's tests\<close>

text \<open>
  \<open>seedTestData\<close> of the store's test suite: one company, the projects \<open>kubernetes\<close> and
  \<open>prometheus\<close>, three maintainers, and the two memberships of each project.
\<close>

definition noCompany :: Company where
  "noCompany = \<lparr>ID = 0, DeletedAt = None, CompanyName = []\<rparr>"

definition testCompany :: Company where
  "testCompany = \<lparr>ID = 1, DeletedAt = None, CompanyName = ''Test Company''\<rparr>"

definition maintainer1 :: Maintainer where
  "maintainer1 = \<lparr>ID = 1, DeletedAt = None, MaintainerName = ''Alice Developer'',
     Email = ''alice@example.com'', GitHubAccount = ''alice'', GitHubEmail = ''GITHUB_MISSING'',
     CompanyID = Some 1, MaintainerCompany = noCompany\<rparr>"

definition maintainer2 :: Maintainer where
  "maintainer2 = \<lparr>ID = 2, DeletedAt = None, MaintainerName = ''Bob Engineer'',
     Email = ''bob@example.com'', GitHubAccount = ''bob'', GitHubEmail = ''GITHUB_MISSING'',
     CompanyID = Some 1, MaintainerCompany = noCompany\<rparr>"

definition maintainer3 :: Maintainer where
  "maintainer3 = \<lparr>ID = 3, DeletedAt = None, MaintainerName = ''Charlie Contributor'',
     Email = ''charlie@example.com'', GitHubAccount = ''charlie'', GitHubEmail = ''GITHUB_MISSING'',
     CompanyID = Some 1, MaintainerCompany = noCompany\<rparr>"

definition project1 :: Project where
  "project1 = \<lparr>ID = 1, DeletedAt = None, ProjectName = ''kubernetes'', ParentProjectID = None,
     Maturity = ''Graduated'', MaintainerRef = [], OnboardingIssue = None,
     MailingList = Some ''MML_MISSING'', Maintainers = []\<rparr>"

definition project2 :: Project where
  "project2 = \<lparr>ID = 2, DeletedAt = None, ProjectName = ''prometheus'', ParentProjectID = None,
     Maturity = ''Graduated'', MaintainerRef = [], OnboardingIssue = None,
     MailingList = Some ''MML_MISSING'', Maintainers = []\<rparr>"

definition emptyProject :: Project where
  "emptyProject = \<lparr>ID = 3, DeletedAt = None, ProjectName = ''empty-project'', ParentProjectID = None,
     Maturity = ''Sandbox'', MaintainerRef = [], OnboardingIssue = None,
     MailingList = Some ''MML_MISSING'', Maintainers = []\<rparr>"

definition seedTestData :: database where
  "seedTestData = \<lparr>companies = [testCompany],
     maintainers = [maintainer1, maintainer2, maintainer3],
     projects = [project1, project2, emptyProject],
     maintainer_projects =
       [\<lparr>MaintainerID = 1, ProjectID = 1\<rparr>, \<lparr>MaintainerID = 2, ProjectID = 1\<rparr>,
        \<lparr>MaintainerID = 2, ProjectID = 2\<rparr>, \<lparr>MaintainerID = 3, ProjectID = 2\<rparr>],
     services = [], service_teams = [], service_user_teams = [],
     unavailable = False\<rparr>"

text \<open>
  A maintainer whose handle starts with \<open>U+00C9\<close>, the capital E with acute accent:
  the bytes \<open>0xC3 0x89\<close> followed by \<open>ric\<close>.
\<close>

definition accentedHandle :: string where
  "accentedHandle = [char_of (195 :: nat), char_of (137 :: nat), CHR ''r'', CHR ''i'', CHR ''c'']"

definition accentedMaintainer :: Maintainer where
  "accentedMaintainer = \<lparr>ID = 4, DeletedAt = None, MaintainerName = ''Eric Reviewer'',
     Email = ''eric@example.com'', GitHubAccount = accentedHandle, GitHubEmail = ''GITHUB_MISSING'',
     CompanyID = Some 1, MaintainerCompany = noCompany\<rparr>"

definition accentedData :: database where
  "accentedData = seedTestData\<lparr>maintainers := maintainers seedTestData @ [accentedMaintainer]\<rparr>"

subsection \<open>Linking a service user to its teams\<close>

text \<open>The key an insert assigns: one more than the largest key the table has held.\<close>

definition nextID :: "'a Model_scheme list \<Rightarrow> nat" where
  "nextID rows = Suc (fold max (map ID rows) 0)"

text \<open>
  \<open>db.Create(&row)\<close> on \<open>service_user_teams\<close>. The table has no foreign key and no
  unique index: the ORM reads the \<open>ServiceTeam\<close> field with \<open>foreignKey:ServiceTeamID\<close>
  as a has-one relation, whose constraint belongs to \<open>service_teams\<close>, and the other
  columns are tagged \<open>index\<close>. A row given with key 0 gets the next key; a row given with
  a key is stored under it unless the key is taken.
\<close>

definition createLink :: "database \<Rightarrow> ServiceUserTeams \<Rightarrow> dbError + ServiceUserTeams \<times> database" where
  "createLink db row =
     (if unavailable db then Inl ErrDriver
      else if ID row \<noteq> 0 \<and> list_ex (\<lambda>r. ID r = ID row) (service_user_teams db) then Inl ErrConstraint
      else
        let row' = (if ID row = 0 then row\<lparr>ID := nextID (service_user_teams db)\<rparr> else row)
        in Inr (row', db\<lparr>service_user_teams := service_user_teams db @ [row']\<rparr>))"

text \<open>
  \<open>db.Where(sql, args).FirstOrCreate(&dest)\<close> on \<open>service_user_teams\<close>. The ORM looks for
  the first visible row that satisfies the condition and loads it into \<open>dest\<close>; when there
  is none it inserts \<open>dest\<close>. A condition given as SQL text only selects: the ORM copies
  conditions into the new row only when they are given as a struct or a map, so the row
  inserted is \<open>dest\<close> as the caller filled it. The lookup reports no
  \<open>ErrRecordNotFound\<close>.
\<close>

definition firstOrCreateLink ::
  "database \<Rightarrow> (ServiceUserTeams \<Rightarrow> bool) \<Rightarrow> ServiceUserTeams \<Rightarrow> dbError + ServiceUserTeams \<times> database" where
  "firstOrCreateLink db cond dest =
     (if unavailable db then Inl ErrDriver
      else case leastID (filter (\<lambda>r. cond r \<and> live r) (service_user_teams db)) of
             Some r \<Rightarrow> Inr (r, db)
           | None \<Rightarrow> createLink db dest)"

text \<open>
  \<open>db.Save(&row)\<close>: a row without a key is created; otherwise every column of the stored
  row with that key is overwritten, and the row is inserted when there is no such row.
\<close>

definition saveLink :: "database \<Rightarrow> ServiceUserTeams \<Rightarrow> dbError + database" where
  "saveLink db row =
     (if ID row = 0 then map_sum id snd (createLink db row)
      else if unavailable db then Inl ErrDriver
      else if list_ex (\<lambda>r. ID r = ID row) (service_user_teams db)
      then Inr (db\<lparr>service_user_teams :=
                    map (\<lambda>r. if ID r = ID row then row else r) (service_user_teams db)\<rparr>)
      else Inr (db\<lparr>service_user_teams := service_user_teams db @ [row]\<rparr>))"

text \<open>The entries of \<open>linkErrors\<close>: which statement failed, for which user and team, and how.\<close>

datatype linkFailure =
  SaveFailed int nat dbError
| LookupFailed int nat dbError
| CreateFailed int nat dbError

datatype linkError =
  NilServiceUser
| NoServiceTeams int
| BothMaintainerAndCollaborator int
| LinkingErrors "linkFailure list"

text \<open>
  The body of the loop over \<open>sTeams\<close>, for a team that is not nil: the entries of
  \<open>linkErrors\<close> after it, or a panic, and the database left behind. The two log lines
  that name the team dereference \<open>st.ServiceTeamName\<close>, which is a pointer.
\<close>

definition linkOne ::
  "ServiceUser \<Rightarrow> Maintainer option \<Rightarrow> Collaborator option \<Rightarrow> ServiceTeam
   \<Rightarrow> database \<times> linkFailure list \<Rightarrow> linkFailure list result \<times> database" where
  "linkOne su maintainer collaborator st acc =
     (let db = fst acc; linkErrors = snd acc;
          serviceUserTeams = \<lparr>ID = 0, DeletedAt = None, LinkServiceID = 1,
             LinkServiceUserID = ServiceUserID su, LinkServiceTeamID = 0,
             LinkMaintainerID = None, LinkCollaboratorID = None\<rparr>
      in case firstOrCreateLink db
                (\<lambda>r. LinkServiceID r = UserServiceID su \<and> LinkServiceTeamID r = ID st
                      \<and> LinkServiceUserID r = ServiceUserID su)
                serviceUserTeams of
           Inr (found, db1) \<Rightarrow>
             let asMaintainer = (maintainer \<noteq> None \<and> LinkMaintainerID found = None);
                 row1 = (if asMaintainer
                         then found\<lparr>LinkMaintainerID := map_option ID maintainer,
                                    LinkCollaboratorID := None\<rparr>
                         else found);
                 asCollaborator = (collaborator \<noteq> None \<and> LinkCollaboratorID row1 = None);
                 row2 = (if asCollaborator
                         then row1\<lparr>LinkCollaboratorID := map_option ID collaborator,
                                   LinkMaintainerID := None\<rparr>
                         else row1);
                 updated = (asMaintainer \<or> asCollaborator)
             in if updated
                then (case saveLink db1 row2 of
                        Inl err \<Rightarrow> (Done (linkErrors @ [SaveFailed (ServiceUserID su) (ID st) err]), db1)
                      | Inr db2 \<Rightarrow>
                          (case ServiceTeamName st of
                             None \<Rightarrow> (Panic NilPointerDereference, db2)
                           | Some _ \<Rightarrow> (Done linkErrors, db2)))
                else (Done linkErrors, db1)
         | Inl err \<Rightarrow>
             if err = ErrRecordNotFound
             then (case ServiceTeamName st of
                     None \<Rightarrow> (Panic NilPointerDereference, db)
                   | Some _ \<Rightarrow> (Done (linkErrors @ [LookupFailed (ServiceUserID su) (ID st) err]), db))
             else
               let newLink = \<lparr>ID = 0, DeletedAt = None, LinkServiceID = UserServiceID su,
                      LinkServiceUserID = ServiceUserID su, LinkServiceTeamID = ID st,
                      LinkMaintainerID = map_option ID maintainer,
                      LinkCollaboratorID =
                        (if maintainer \<noteq> None then None else map_option ID collaborator)\<rparr>
               in case createLink db newLink of
                    Inl err' \<Rightarrow> (Done (linkErrors @ [CreateFailed (ServiceUserID su) (ID st) err']), db)
                  | Inr (_, db1) \<Rightarrow> (Done linkErrors, db1))"

fun linkAll ::
  "ServiceUser \<Rightarrow> Maintainer option \<Rightarrow> Collaborator option \<Rightarrow> ServiceTeam option list
   \<Rightarrow> database \<times> linkFailure list \<Rightarrow> linkFailure list result \<times> database" where
  "linkAll su maintainer collaborator [] acc = (Done (snd acc), fst acc)"
| "linkAll su maintainer collaborator (None # sTeams) acc =
     linkAll su maintainer collaborator sTeams acc"
| "linkAll su maintainer collaborator (Some st # sTeams) acc =
     (case linkOne su maintainer collaborator st acc of
        (Done linkErrors, db) \<Rightarrow> linkAll su maintainer collaborator sTeams (db, linkErrors)
      | (Panic p, db) \<Rightarrow> (Panic p, db))"

text \<open>
  \<open>LinkServiceUserToTeam\<close>: the error returned (\<open>None\<close> for nil), or a panic, and the
  database left behind.
\<close>

definition LinkServiceUserToTeam ::
  "database \<Rightarrow> ServiceUser option \<Rightarrow> ServiceTeam option list \<Rightarrow> Maintainer option
   \<Rightarrow> Collaborator option \<Rightarrow> linkError option result \<times> database" where
  "LinkServiceUserToTeam db su sTeams maintainer collaborator =
     (case su of
        None \<Rightarrow> (Done (Some NilServiceUser), db)
      | Some u \<Rightarrow>
          if length sTeams = 0 then (Done (Some (NoServiceTeams (ServiceUserID u))), db)
          else if maintainer \<noteq> None \<and> collaborator \<noteq> None
          then (Done (Some (BothMaintainerAndCollaborator (ServiceUserID u))), db)
          else
            (case linkAll u maintainer collaborator sTeams (db, []) of
               (Panic p, db1) \<Rightarrow> (Panic p, db1)
             | (Done linkErrors, db1) \<Rightarrow>
                 if length linkErrors > 0 then (Done (Some (LinkingErrors linkErrors)), db1)
                 else (Done None, db1)))"

text \<open>
  A FOSSA team of the project \<open>kubernetes\<close> and a FOSSA user, as \<open>loadFOSSA\<close> stores them
  before it links them.
\<close>

definition fossaTeam :: ServiceTeam where
  "fossaTeam = \<lparr>ID = 5, DeletedAt = None, TeamProjectID = 1, TeamServiceID = 1,
     ServiceTeamID = 1001, ServiceTeamName = Some ''kubernetes'',
     TeamProjectName = Some ''kubernetes''\<rparr>"

definition fossaUser :: ServiceUser where
  "fossaUser = \<lparr>ID = 1, DeletedAt = None, UserServiceID = 1, ServiceUserID = 7,
     ServiceEmail = ''alice@example.com'', ServiceGitHubName = Some ''alice''\<rparr>"

definition fossaTestData :: database where
  "fossaTestData = seedTestData\<lparr>service_teams := [fossaTeam]\<rparr>"

subsection \<open>The schema of the name columns\<close>

text \<open>
  The \<open>gorm\<close> struct tags of \<open>Project.Name\<close> and \<open>Company.Name\<close>, as the model package
  writes them.
\<close>

definition ProjectNameTag :: string where
  "ProjectNameTag = ''uniqueIndex,not null;check:name <> '' @ [CHR 0x27, CHR 0x27]"

definition CompanyNameTag :: string where
  "CompanyNameTag = ''uniqueIndex''"

text \<open>\<open>strings.Split\<close> at a one-byte separator, and \<open>strings.ToUpper\<close> on ASCII text.\<close>

fun splitOn :: "char \<Rightarrow> string \<Rightarrow> string list" where
  "splitOn sep [] = [ [] ]"
| "splitOn sep (c # cs) =
     (if c = sep then [] # splitOn sep cs
      else case splitOn sep cs of
             p # ps \<Rightarrow> (c # p) # ps
           | [] \<Rightarrow> [ [c] ])"

definition asciiUpperChar :: "char \<Rightarrow> char" where
  "asciiUpperChar c = (if 97 \<le> byte c \<and> byte c \<le> 122 then char_of (byte c - 32) else c)"

definition asciiToUpper :: "string \<Rightarrow> string" where
  "asciiToUpper s = map asciiUpperChar s"

text \<open>
  How the ORM reads a tag when it migrates a table. The settings of a tag are separated
  by \<open>;\<close>. The name of a setting is the text before its first \<open>:\<close>, trimmed and in upper
  case; the value is the text after it. A setting named \<open>UNIQUEINDEX\<close>, a setting named
  \<open>INDEX\<close> whose options (separated by \<open>,\<close>, after the index name) include \<open>unique\<close>,
  and a setting named \<open>UNIQUE\<close> each make the column unique. Options of an index follow
  the \<open>:\<close>; a setting with any other name is ignored.
\<close>

text \<open>\<open>strings.Join\<close>.\<close>

fun joinWith :: "string \<Rightarrow> string list \<Rightarrow> string" where
  "joinWith sep [] = []"
| "joinWith sep [p] = p"
| "joinWith sep (p # ps) = p @ sep @ joinWith sep ps"

definition settingName :: "string \<Rightarrow> string" where
  "settingName setting = asciiToUpper (asciiTrimSpace (hd (splitOn (CHR '':'') setting)))"

definition settingValue :: "string \<Rightarrow> string" where
  "settingValue setting = joinWith '':'' (tl (splitOn (CHR '':'') setting))"

definition indexOptions :: "string \<Rightarrow> string list" where
  "indexOptions setting =
     map (\<lambda>opt. settingName opt) (tl (splitOn (CHR '','') (settingValue setting)))"

definition settingIsUnique :: "string \<Rightarrow> bool" where
  "settingIsUnique setting =
     (settingName setting = ''UNIQUEINDEX''
      \<or> (settingName setting = ''INDEX'' \<and> ''UNIQUE'' \<in> set (indexOptions setting))
      \<or> settingName setting = ''UNIQUE'')"

definition tagSettings :: "string \<Rightarrow> string list" where
  "tagSettings tag = filter (\<lambda>setting. setting \<noteq> []) (splitOn (CHR '';'') tag)"

definition uniqueColumn :: "string \<Rightarrow> bool" where
  "uniqueColumn tag = list_ex settingIsUnique (tagSettings tag)"

text \<open>The \<open>check:\<close> setting of a tag, if it has one: the SQL text of the constraint.\<close>

definition checkConstraint :: "string \<Rightarrow> string option" where
  "checkConstraint tag =
     (case filter (\<lambda>setting. settingName setting = ''CHECK'') (tagSettings tag) of
        [] \<Rightarrow> None
      | setting # _ \<Rightarrow> Some (settingValue setting))"

text \<open>
  \<open>Maturity.IsValid\<close>. \<open>Maturity.Value\<close>, which the driver calls on the column's value
  once it has a connection, returns an error for any other text.
\<close>

definition IsValid :: "string \<Rightarrow> bool" where
  "IsValid m = (m = ''Sandbox'' \<or> m = ''Incubating'' \<or> m = ''Graduated'' \<or> m = ''Archived'')"

text \<open>
  \<open>db.Create(&project)\<close> and \<open>db.Create(&company)\<close> on the migrated tables, for a row
  given without a key and without associations. A unique index covers every stored row,
  soft-deleted or not. The only check constraint the model writes is \<open>name <> ''\<close>.
\<close>

definition nameNotEmptyCheck :: string where
  "nameNotEmptyCheck = ''name <> '' @ [CHR 0x27, CHR 0x27]"

definition createProject :: "database \<Rightarrow> Project \<Rightarrow> dbError + Project \<times> database" where
  "createProject db p =
     (if unavailable db then Inl ErrDriver
      else if \<not> IsValid (Maturity p) then Inl ErrInvalidValue
      else if uniqueColumn ProjectNameTag \<and> ProjectName p \<in> set (map ProjectName (projects db))
      then Inl ErrConstraint
      else if checkConstraint ProjectNameTag = Some nameNotEmptyCheck \<and> ProjectName p = []
      then Inl ErrConstraint
      else
        let p' = p\<lparr>ID := nextID (projects db)\<rparr>
        in Inr (p', db\<lparr>projects := projects db @ [p']\<rparr>))"

definition createCompany :: "database \<Rightarrow> Company \<Rightarrow> dbError + Company \<times> database" where
  "createCompany db c =
     (if unavailable db then Inl ErrDriver
      else if uniqueColumn CompanyNameTag \<and> CompanyName c \<in> set (map CompanyName (companies db))
      then Inl ErrConstraint
      else if checkConstraint CompanyNameTag = Some nameNotEmptyCheck \<and> CompanyName c = []
      then Inl ErrConstraint
      else
        let c' = c\<lparr>ID := nextID (companies db)\<rparr>
        in Inr (c', db\<lparr>companies := companies db @ [c']\<rparr>))"

text \<open>A row to insert: a second project named \<open>kubernetes\<close>, and a second \<open>Test Company\<close>.\<close>

definition secondKubernetes :: Project where
  "secondKubernetes = project1\<lparr>ID := 0\<rparr>"

definition secondTestCompany :: Company where
  "secondTestCompany = testCompany\<lparr>ID := 0\<rparr>"

section \<open>The Kubernetes API\<close>

text \<open>
  The \<open>Project\<close> custom resource, as far as the programs read and write it: its name and
  namespace, generation and annotations, its spec, and the conditions of its status.
\<close>

record ResourceReference =
  Name :: string
  Workspace :: string
  UID :: string

record ProjectSpec =
  DisplayName :: string
  SpecMaturity :: string
  ParentProjectRef :: "ResourceReference option"
  MaintainerLeadRef :: "ResourceReference option"
  SpecOnboardingIssue :: string
  SpecMailingList :: string
  FoundationRef :: "ResourceReference option"
  MaintainerRefs :: "ResourceReference list"
  CollaboratorRefs :: "ResourceReference list"
  ServiceRefs :: "ResourceReference list"
  Tags :: "(string \<times> string) list"

record Condition =
  Type :: string
  Status :: string
  Reason :: string
  Message :: string

record ProjectResource =
  ObjectName :: string
  ObjectNamespace :: string
  Generation :: nat
  Annotations :: "(string \<times> string) list"
  Spec :: ProjectSpec
  Conditions :: "Condition list"

datatype apiError = NotFound | AlreadyExists | ServerError | MetadataOnly

text \<open>
  The calls a client makes on \<open>Project\<close> resources, by namespace and name, and the API
  server they go to: the resources it stores, and the calls it refuses with a server
  error.
\<close>

datatype apiCall =
  GetCall string string
| GetMetadataCall string string
| CreateCall string string
| UpdateCall string string
| StatusUpdateCall string string
| GetConfigMapCall string string
| GetSecretCall string string

text \<open>
  The cluster also stores the data of config maps and of secrets, each under its namespace
  and name.
\<close>

record cluster =
  resources :: "ProjectResource list"
  configMaps :: "((string \<times> string) \<times> (string \<times> string) list) list"
  secrets :: "((string \<times> string) \<times> (string \<times> string) list) list"
  refused :: "apiCall list"

definition isResource :: "string \<Rightarrow> string \<Rightarrow> ProjectResource \<Rightarrow> bool" where
  "isResource ns name obj = (ObjectNamespace obj = ns \<and> ObjectName obj = name)"

definition clientGet :: "cluster \<Rightarrow> string \<Rightarrow> string \<Rightarrow> apiError + ProjectResource" where
  "clientGet c ns name =
     (if GetCall ns name \<in> set (refused c) then Inl ServerError
      else case find (isResource ns name) (resources c) of
             None \<Rightarrow> Inl NotFound
           | Some obj \<Rightarrow> Inr obj)"

definition clientCreate :: "cluster \<Rightarrow> ProjectResource \<Rightarrow> apiError + cluster" where
  "clientCreate c obj =
     (if CreateCall (ObjectNamespace obj) (ObjectName obj) \<in> set (refused c) then Inl ServerError
      else if list_ex (isResource (ObjectNamespace obj) (ObjectName obj)) (resources c)
      then Inl AlreadyExists
      else Inr (c\<lparr>resources := resources c @ [obj]\<rparr>))"

text \<open>
  \<open>Update\<close> replaces everything but the status of the stored resource; \<open>Status().Update\<close>
  replaces the status only.
\<close>

definition clientUpdate :: "cluster \<Rightarrow> ProjectResource \<Rightarrow> apiError + cluster" where
  "clientUpdate c obj =
     (if UpdateCall (ObjectNamespace obj) (ObjectName obj) \<in> set (refused c) then Inl ServerError
      else if \<not> list_ex (isResource (ObjectNamespace obj) (ObjectName obj)) (resources c)
      then Inl NotFound
      else Inr (c\<lparr>resources :=
                    map (\<lambda>old. if isResource (ObjectNamespace obj) (ObjectName obj) old
                               then obj\<lparr>Conditions := Conditions old\<rparr> else old)
                        (resources c)\<rparr>))"

definition clientStatusUpdate :: "cluster \<Rightarrow> ProjectResource \<Rightarrow> apiError + cluster" where
  "clientStatusUpdate c obj =
     (if StatusUpdateCall (ObjectNamespace obj) (ObjectName obj) \<in> set (refused c) then Inl ServerError
      else if \<not> list_ex (isResource (ObjectNamespace obj) (ObjectName obj)) (resources c)
      then Inl NotFound
      else Inr (c\<lparr>resources :=
                    map (\<lambda>old. if isResource (ObjectNamespace obj) (ObjectName obj) old
                               then old\<lparr>Conditions := Conditions obj\<rparr> else old)
                        (resources c)\<rparr>))"

section \<open>The sync job: projects\<close>

text \<open>\<open>apis.ResourceReference{Name: n}\<close>.\<close>

definition refTo :: "string \<Rightarrow> ResourceReference" where
  "refTo n = \<lparr>Name = n, Workspace = [], UID = []\<rparr>"

text \<open>
  \<open>projectSpecEqual\<close>. The maintainer references are compared as the source does: equal
  lengths, and every name of the second list occurs in the first.
\<close>

definition refNameDiffers :: "ResourceReference option \<Rightarrow> ResourceReference option \<Rightarrow> bool" where
  "refNameDiffers a b =
     (case a of
        None \<Rightarrow> False
      | Some ra \<Rightarrow> (case b of None \<Rightarrow> False | Some rb \<Rightarrow> Name ra \<noteq> Name rb))"

definition projectSpecEqual :: "ProjectSpec \<Rightarrow> ProjectSpec \<Rightarrow> bool" where
  "projectSpecEqual a b =
     (if DisplayName a \<noteq> DisplayName b \<or> SpecMaturity a \<noteq> SpecMaturity b
         \<or> SpecMailingList a \<noteq> SpecMailingList b
         \<or> SpecOnboardingIssue a \<noteq> SpecOnboardingIssue b then False
      else if (ParentProjectRef a = None) \<noteq> (ParentProjectRef b = None) then False
      else if refNameDiffers (ParentProjectRef a) (ParentProjectRef b) then False
      else if (MaintainerLeadRef a = None) \<noteq> (MaintainerLeadRef b = None) then False
      else if refNameDiffers (MaintainerLeadRef a) (MaintainerLeadRef b) then False
      else if length (MaintainerRefs a) \<noteq> length (MaintainerRefs b) then False
      else list_all (\<lambda>r. Name r \<in> set (map Name (MaintainerRefs a))) (MaintainerRefs b))"

text \<open>
  \<open>SQLStore.GetProjectMapByName\<close>: every visible project with its maintainers loaded,
  keyed by name; of two rows with one name the later one stays.
\<close>

definition loadProject :: "database \<Rightarrow> Project \<Rightarrow> Project" where
  "loadProject db p = p\<lparr>Maintainers := preloadMaintainers db (ID p)\<rparr>"

definition loadedProjects :: "database \<Rightarrow> Project list" where
  "loadedProjects db = map (loadProject db) (filter live (projects db))"

definition projectsByNameOf :: "Project list \<Rightarrow> (string \<rightharpoonup> Project)" where
  "projectsByNameOf ps = fold (\<lambda>p byName. byName(ProjectName p \<mapsto> p)) ps Map.empty"

definition GetProjectMapByName :: "database \<Rightarrow> dbError + (string \<rightharpoonup> Project)" where
  "GetProjectMapByName db =
     (if unavailable db then Inl ErrDriver
      else Inr (projectsByNameOf (loadedProjects db)))"

text \<open>
  \<open>for _, p := range projectsByName\<close> visits the entries of the map in an order that Go
  leaves open. The order is an argument: the keys in the order of the visit.
\<close>

definition rangeOver :: "string list \<Rightarrow> (string \<rightharpoonup> Project) \<Rightarrow> Project list" where
  "rangeOver order byName = List.map_filter byName order"

text \<open>The spec that the body of the loop of \<open>syncProjects\<close> computes for a project.\<close>

definition projectSpecFor ::
  "(string \<Rightarrow> string) \<Rightarrow> (string \<Rightarrow> string) \<Rightarrow> (nat \<rightharpoonup> string) \<Rightarrow> Project \<Rightarrow> ProjectSpec" where
  "projectSpecFor toLower trimSpace parentNameByID p =
     \<lparr>DisplayName = ProjectName p,
      SpecMaturity = Maturity p,
      ParentProjectRef =
        (case ParentProjectID p of
           None \<Rightarrow> None
         | Some parentID \<Rightarrow>
             (case parentNameByID parentID of
                None \<Rightarrow> None
              | Some parentName \<Rightarrow> Some (refTo (sanitizeName toLower trimSpace parentName)))),
      MaintainerLeadRef =
        (if MaintainerRef p \<noteq> []
         then Some (refTo (sanitizeName toLower trimSpace (MaintainerRef p))) else None),
      SpecOnboardingIssue = (case OnboardingIssue p of None \<Rightarrow> [] | Some issue \<Rightarrow> issue),
      SpecMailingList = (case MailingList p of None \<Rightarrow> [] | Some list \<Rightarrow> list),
      FoundationRef = None,
      MaintainerRefs = map (\<lambda>m. refTo (sanitizeName toLower trimSpace (Email m))) (Maintainers p),
      CollaboratorRefs = [],
      ServiceRefs = [],
      Tags = []\<rparr>"

text \<open>The first loop of \<open>syncProjects\<close>: \<open>parentNameByID[p.ID] = p.Name\<close>.\<close>

definition parentNameByIDOf :: "Project list \<Rightarrow> (nat \<rightharpoonup> string)" where
  "parentNameByIDOf ps = fold (\<lambda>p byID. byID(ID p \<mapsto> ProjectName p)) ps Map.empty"

text \<open>\<open>&apis.Project{ObjectMeta: metav1.ObjectMeta{Name: name, Namespace: ns}, Spec: spec}\<close>.\<close>

definition newProjectResource :: "string \<Rightarrow> string \<Rightarrow> ProjectSpec \<Rightarrow> ProjectResource" where
  "newProjectResource name ns spec =
     \<lparr>ObjectName = name, ObjectNamespace = ns, Generation = 0, Annotations = [],
      Spec = spec, Conditions = []\<rparr>"

datatype syncError =
  StoreFailed dbError
| GetFailed apiError
| CreateFailed string apiError
| UpdateFailed string apiError

text \<open>
  The body of the loop: the error returned, if any, and the cluster left behind.
\<close>

definition syncProject ::
  "(string \<Rightarrow> string) \<Rightarrow> (string \<Rightarrow> string) \<Rightarrow> string \<Rightarrow> (nat \<rightharpoonup> string) \<Rightarrow> cluster \<Rightarrow> Project
   \<Rightarrow> syncError option \<times> cluster" where
  "syncProject toLower trimSpace ns parentNameByID c p =
     (let name = sanitizeName toLower trimSpace (ProjectName p);
          spec = projectSpecFor toLower trimSpace parentNameByID p
      in case clientGet c ns name of
           Inl err \<Rightarrow>
             if err = NotFound
             then (case clientCreate c (newProjectResource name ns spec) of
                     Inl err' \<Rightarrow> (Some (CreateFailed name err'), c)
                   | Inr c' \<Rightarrow> (None, c'))
             else (Some (GetFailed err), c)
         | Inr obj \<Rightarrow>
             if \<not> projectSpecEqual (Spec obj) spec
             then (case clientUpdate c (obj\<lparr>Spec := spec\<rparr>) of
                     Inl err' \<Rightarrow> (Some (UpdateFailed name err'), c)
                   | Inr c' \<Rightarrow> (None, c'))
             else (None, c))"

fun syncEach ::
  "(string \<Rightarrow> string) \<Rightarrow> (string \<Rightarrow> string) \<Rightarrow> string \<Rightarrow> (nat \<rightharpoonup> string) \<Rightarrow> cluster \<Rightarrow> Project list
   \<Rightarrow> syncError option \<times> cluster" where
  "syncEach toLower trimSpace ns parentNameByID c [] = (None, c)"
| "syncEach toLower trimSpace ns parentNameByID c (p # ps) =
     (case syncProject toLower trimSpace ns parentNameByID c p of
        (Some err, c') \<Rightarrow> (Some err, c')
      | (None, c') \<Rightarrow> syncEach toLower trimSpace ns parentNameByID c' ps)"

text \<open>
  \<open>syncProjects\<close>. Each of its two loops over \<open>projectsByName\<close> has its own order.
\<close>

definition syncProjects ::
  "(string \<Rightarrow> string) \<Rightarrow> (string \<Rightarrow> string) \<Rightarrow> string list \<Rightarrow> string list
   \<Rightarrow> database \<Rightarrow> cluster \<Rightarrow> string \<Rightarrow> syncError option \<times> cluster" where
  "syncProjects toLower trimSpace order1 order2 db c ns =
     (case GetProjectMapByName db of
        Inl err \<Rightarrow> (Some (StoreFailed err), c)
      | Inr projectsByName \<Rightarrow>
          let parentNameByID = parentNameByIDOf (rangeOver order1 projectsByName)
          in syncEach toLower trimSpace ns parentNameByID c (rangeOver order2 projectsByName))"

text \<open>
  What the specification says of the spec of a project row, read on the tables. The
  maintainers associated with a row are the visible rows of the maintainers table that
  the join table links to it. The sync job keys the visible project rows by name, so of
  the rows with one name it knows the last: those are the known projects, and a parent
  resolves when it is the key of one of them.
\<close>

fun lastOfName :: "Project list \<Rightarrow> Project list" where
  "lastOfName [] = []"
| "lastOfName (p # ps) =
     (if ProjectName p \<in> set (map ProjectName ps) then lastOfName ps else p # lastOfName ps)"

definition knownProjects :: "database \<Rightarrow> Project list" where
  "knownProjects db = lastOfName (filter live (projects db))"

definition mirrorsRow ::
  "(string \<Rightarrow> string) \<Rightarrow> (string \<Rightarrow> string) \<Rightarrow> database \<Rightarrow> Project \<Rightarrow> ProjectSpec \<Rightarrow> bool" where
  "mirrorsRow toLower trimSpace db p spec =
     (DisplayName spec = ProjectName p
      \<and> SpecMaturity spec = Maturity p
      \<and> (case MailingList p of
            None \<Rightarrow> SpecMailingList spec = []
          | Some v \<Rightarrow> SpecMailingList spec = v)
      \<and> (case OnboardingIssue p of
            None \<Rightarrow> SpecOnboardingIssue spec = []
          | Some v \<Rightarrow> SpecOnboardingIssue spec = v)
      \<and> MaintainerRefs spec =
            map (\<lambda>m. refTo (sanitizeName toLower trimSpace (Email m)))
              (filter (\<lambda>m. live m
                         \<and> (\<exists>j \<in> set (maintainer_projects db).
                               MaintainerID j = ID m \<and> ProjectID j = ID p))
                 (maintainers db))
      \<and> (case ParentProjectRef spec of
            None \<Rightarrow> \<not> (\<exists>q \<in> set (knownProjects db). ParentProjectID p = Some (ID q))
          | Some parent \<Rightarrow>
              (\<exists>q \<in> set (knownProjects db). ParentProjectID p = Some (ID q)
                 \<and> parent = refTo (sanitizeName toLower trimSpace (ProjectName q))))
      \<and> MaintainerLeadRef spec =
            (if MaintainerRef p \<noteq> []
             then Some (refTo (sanitizeName toLower trimSpace (MaintainerRef p))) else None)
      \<and> FoundationRef spec = None \<and> CollaboratorRefs spec = [] \<and> ServiceRefs spec = []
      \<and> Tags spec = [])"

text \<open>An empty cluster, and an order in which the three projects of the fixture may be visited.\<close>

definition emptyCluster :: cluster where
  "emptyCluster = \<lparr>resources = [], configMaps = [], secrets = [], refused = []\<rparr>"

definition visitOrder :: "string list" where
  "visitOrder = [''prometheus'', ''kubernetes'', ''empty-project'']"

text \<open>
  The database after a second project named \<open>kubernetes\<close> has been inserted into the
  fixture: the new row has the key 4 and no maintainers.
\<close>

definition duplicateNameData :: database where
  "duplicateNameData = seedTestData\<lparr>projects := projects seedTestData @ [secondKubernetes\<lparr>ID := 4\<rparr>]\<rparr>"

section \<open>The workspace operator\<close>

subsection \<open>The kcp client\<close>

text \<open>
  A workspace as the kcp API stores it, and the summary the client returns.
  \<open>LogicalClusterPhaseReady\<close> is the phase \<open>Ready\<close>.
\<close>

record KcpWorkspace =
  WorkspaceName :: string
  WorkspaceAnnotations :: "(string \<times> string) list"
  WorkspaceTypeName :: string
  WorkspaceTypePath :: string
  URL :: string
  Phase :: string

record WorkspaceInfo =
  InfoName :: string
  InfoURL :: string
  InfoPhase :: string
  Ready :: bool

definition DefaultWorkspaceType :: string where
  "DefaultWorkspaceType = ''kdp-organization''"

definition infoOf :: "KcpWorkspace \<Rightarrow> WorkspaceInfo" where
  "infoOf ws = \<lparr>InfoName = WorkspaceName ws, InfoURL = URL ws, InfoPhase = Phase ws,
     Ready = (Phase ws = ''Ready'')\<rparr>"

text \<open>
  The kcp server: the workspaces it stores, the requests it refuses, the requests it has
  received so far, the phase and URL it gives a workspace it has just stored, and the
  phases it moves a workspace through while a client polls it, one per poll until the
  client's time is up.
\<close>

datatype kcpCall = GetWorkspaceCall string | CreateWorkspaceCall string

record kcpServer =
  workspaces :: "KcpWorkspace list"
  kcpRefused :: "kcpCall list"
  requests :: "kcpCall list"
  initialPhase :: string
  initialURL :: string
  progress :: "string list"

datatype kcpError =
  EmptyName | KcpServerError | KcpAlreadyExists | WorkspaceNotFound | WaitTimedOut

definition received :: "kcpCall \<Rightarrow> kcpServer \<Rightarrow> kcpServer" where
  "received call srv = srv\<lparr>requests := requests srv @ [call]\<rparr>"

definition hasWorkspace :: "kcpServer \<Rightarrow> string \<Rightarrow> bool" where
  "hasWorkspace srv name = list_ex (\<lambda>ws. WorkspaceName ws = name) (workspaces srv)"

text \<open>\<open>Client.CreateWorkspace\<close>.\<close>

definition CreateWorkspace ::
  "kcpServer \<Rightarrow> string \<Rightarrow> string \<Rightarrow> string \<Rightarrow> string \<Rightarrow> (kcpError + WorkspaceInfo) \<times> kcpServer" where
  "CreateWorkspace srv projectName projectNamespace projectResourceName workspaceType =
     (if projectName = [] then (Inl EmptyName, srv)
      else
        let wsType = (if workspaceType = [] then DefaultWorkspaceType else workspaceType);
            workspace = \<lparr>WorkspaceName = projectName,
               WorkspaceAnnotations =
                 [(''managed-by'', ''kdp-workspace-operator''),
                  (''project-namespace'', projectNamespace),
                  (''project-name'', projectResourceName)],
               WorkspaceTypeName = wsType, WorkspaceTypePath = ''root'', URL = [], Phase = []\<rparr>;
            srv1 = received (CreateWorkspaceCall projectName) srv
        in if CreateWorkspaceCall projectName \<in> set (kcpRefused srv) then (Inl KcpServerError, srv1)
           else if hasWorkspace srv projectName then (Inl KcpAlreadyExists, srv1)
           else
             let createdWs = workspace\<lparr>URL := initialURL srv, Phase := initialPhase srv\<rparr>
             in (Inr (infoOf createdWs), srv1\<lparr>workspaces := workspaces srv @ [createdWs]\<rparr>))"

text \<open>\<open>Client.GetWorkspace\<close>: \<open>Inr None\<close> is the result \<open>(nil, nil)\<close> for a workspace that does not exist.\<close>

definition GetWorkspace ::
  "kcpServer \<Rightarrow> string \<Rightarrow> (kcpError + WorkspaceInfo option) \<times> kcpServer" where
  "GetWorkspace srv workspaceName =
     (if workspaceName = [] then (Inl EmptyName, srv)
      else
        let srv1 = received (GetWorkspaceCall workspaceName) srv
        in if GetWorkspaceCall workspaceName \<in> set (kcpRefused srv) then (Inl KcpServerError, srv1)
           else case find (\<lambda>ws. WorkspaceName ws = workspaceName) (workspaces srv) of
                  None \<Rightarrow> (Inr None, srv1)
                | Some ws \<Rightarrow> (Inr (Some (infoOf ws)), srv1))"

text \<open>
  \<open>Client.WaitForWorkspaceReady\<close>. Before each poll the server moves the workspace to the
  next phase of its progress; when the progress is used up the client's time is up. The
  result is the error together with \<open>lastInfo\<close>, or the info of the ready workspace.
\<close>

definition advance :: "string \<Rightarrow> string \<Rightarrow> kcpServer \<Rightarrow> kcpServer" where
  "advance workspaceName phase srv =
     srv\<lparr>workspaces :=
           map (\<lambda>ws. if WorkspaceName ws = workspaceName then ws\<lparr>Phase := phase\<rparr> else ws)
               (workspaces srv)\<rparr>"

fun pollUntilReady ::
  "string \<Rightarrow> string list \<Rightarrow> WorkspaceInfo option \<Rightarrow> kcpServer
   \<Rightarrow> (kcpError \<times> WorkspaceInfo option + WorkspaceInfo) \<times> kcpServer" where
  "pollUntilReady workspaceName [] lastInfo srv =
     (Inl (WaitTimedOut, lastInfo), srv\<lparr>progress := []\<rparr>)"
| "pollUntilReady workspaceName (phase # phases) lastInfo srv =
     (case GetWorkspace (advance workspaceName phase srv) workspaceName of
        (Inl err, srv1) \<Rightarrow> (Inl (err, lastInfo), srv1\<lparr>progress := phases\<rparr>)
      | (Inr None, srv1) \<Rightarrow> (Inl (WorkspaceNotFound, lastInfo), srv1\<lparr>progress := phases\<rparr>)
      | (Inr (Some info), srv1) \<Rightarrow>
          if Ready info then (Inr info, srv1\<lparr>progress := phases\<rparr>)
          else pollUntilReady workspaceName phases (Some info) srv1)"

definition WaitForWorkspaceReady ::
  "kcpServer \<Rightarrow> string \<Rightarrow> (kcpError \<times> WorkspaceInfo option + WorkspaceInfo) \<times> kcpServer" where
  "WaitForWorkspaceReady srv workspaceName =
     (if workspaceName = [] then (Inl (EmptyName, None), srv)
      else pollUntilReady workspaceName (progress srv) None srv)"

subsection \<open>The configuration of the client\<close>

record Config =
  KCPURL :: string
  WorkspacePath :: string
  Kubeconfig :: string

datatype configError =
  ConfigMapUnavailable apiError | SecretUnavailable apiError | KubeconfigMissing

definition dataOf :: "string \<Rightarrow> (string \<times> string) list \<Rightarrow> string" where
  "dataOf key entries = (case map_of entries key of None \<Rightarrow> [] | Some v \<Rightarrow> v)"

definition getConfigMap :: "cluster \<Rightarrow> string \<Rightarrow> string \<Rightarrow> apiError + (string \<times> string) list" where
  "getConfigMap k ns name =
     (if GetConfigMapCall ns name \<in> set (refused k) then Inl ServerError
      else case map_of (configMaps k) (ns, name) of
             None \<Rightarrow> Inl NotFound
           | Some entries \<Rightarrow> Inr entries)"

definition getSecret :: "cluster \<Rightarrow> string \<Rightarrow> string \<Rightarrow> apiError + (string \<times> string) list" where
  "getSecret k ns name =
     (if GetSecretCall ns name \<in> set (refused k) then Inl ServerError
      else case map_of (secrets k) (ns, name) of
             None \<Rightarrow> Inl NotFound
           | Some entries \<Rightarrow> Inr entries)"

text \<open>\<open>LoadConfigFromCluster\<close>.\<close>

definition LoadConfigFromCluster :: "cluster \<Rightarrow> string \<Rightarrow> string \<Rightarrow> string \<Rightarrow> configError + Config" where
  "LoadConfigFromCluster k configMapName secretName namespace =
     (case getConfigMap k namespace configMapName of
        Inl err \<Rightarrow> Inl (ConfigMapUnavailable err)
      | Inr configMap \<Rightarrow>
          (case getSecret k namespace secretName of
             Inl err \<Rightarrow> Inl (SecretUnavailable err)
           | Inr secret \<Rightarrow>
               let kcpURL = dataOf ''kcp-url'' configMap;
                   workspacePath = dataOf ''kcp-workspace-path'' configMap;
                   kubeconfig = dataOf ''kubeconfig'' secret
               in if length kubeconfig = 0 then Inl KubeconfigMissing
                  else Inr \<lparr>KCPURL = kcpURL, WorkspacePath = workspacePath,
                            Kubeconfig = kubeconfig\<rparr>))"

text \<open>
  \<open>NewClient\<close>. Whether \<open>clientcmd.RESTConfigFromKubeConfig\<close> accepts the kubeconfig and
  whether \<open>kcpcluster.NewForConfig\<close> accepts the resulting configuration are decided
  by those libraries and are arguments. The client is its workspace path; its requests go to the
  kcp server of the world.
\<close>

datatype clientError = KubeconfigEmpty | RestConfigRejected | ClusterClientRejected

definition NewClient :: "(string \<Rightarrow> bool) \<Rightarrow> (Config \<Rightarrow> bool) \<Rightarrow> Config \<Rightarrow> clientError + string" where
  "NewClient restConfigOK newForConfigOK cfg =
     (if length (Kubeconfig cfg) = 0 then Inl KubeconfigEmpty
      else if \<not> restConfigOK (Kubeconfig cfg) then Inl RestConfigRejected
      else if \<not> newForConfigOK cfg then Inl ClusterClientRejected
      else Inr (if WorkspacePath cfg = [] then ''root'' else WorkspacePath cfg))"

subsection \<open>The status of a project\<close>

text \<open>
  Values as Go holds them inside an \<open>unstructured\<close> object: strings, lists and maps with
  string keys, which are JSON values, and a \<open>[]metav1.Condition\<close>, which is not.
\<close>

datatype goValue =
  GoString string
| GoList "goValue list"
| GoMap "(string \<times> goValue) list"
| GoConditions "Condition list"

fun isJSONValue :: "goValue \<Rightarrow> bool" where
  "isJSONValue (GoString s) = True"
| "isJSONValue (GoList vs) = list_all isJSONValue vs"
| "isJSONValue (GoMap entries) = list_all (\<lambda>entry. isJSONValue (snd entry)) entries"
| "isJSONValue (GoConditions cs) = False"

text \<open>
  \<open>runtime.DeepCopyJSONValue\<close> copies a JSON value and panics on any other value;
  \<open>unstructured.SetNestedField\<close> copies the value with it before it stores it.
\<close>

definition DeepCopyJSONValue :: "goValue \<Rightarrow> panic + goValue" where
  "DeepCopyJSONValue v = (if isJSONValue v then Inr v else Inl CannotDeepCopy)"

definition conditionValue :: "Condition \<Rightarrow> goValue" where
  "conditionValue c =
     GoMap [(''type'', GoString (Type c)), (''status'', GoString (Status c)),
            (''reason'', GoString (Reason c)), (''message'', GoString (Message c))]"

text \<open>The \<open>status\<close> map of a stored project, as the unstructured client returns it.\<close>

definition statusOf :: "ProjectResource \<Rightarrow> (string \<times> goValue) list" where
  "statusOf obj =
     (if Conditions obj = [] then []
      else [(''conditions'', GoList (map conditionValue (Conditions obj)))])"

text \<open>\<open>m[key] = v\<close> on a Go map kept as a list of entries.\<close>

definition setKey :: "string \<Rightarrow> 'v \<Rightarrow> (string \<times> 'v) list \<Rightarrow> (string \<times> 'v) list" where
  "setKey key v entries =
     (if list_ex (\<lambda>entry. fst entry = key) entries
      then map (\<lambda>entry. if fst entry = key then (key, v) else entry) entries
      else entries @ [(key, v)])"

text \<open>
  \<open>meta.SetStatusCondition\<close>: the first condition of the same type takes the new status,
  reason and message; without one the new condition is appended.
\<close>

fun SetStatusCondition :: "Condition list \<Rightarrow> Condition \<Rightarrow> Condition list" where
  "SetStatusCondition [] newCondition = [newCondition]"
| "SetStatusCondition (c # cs) newCondition =
     (if Type c = Type newCondition
      then c\<lparr>Status := Status newCondition, Reason := Reason newCondition,
              Message := Message newCondition\<rparr> # cs
      else c # SetStatusCondition cs newCondition)"

definition WorkspaceReadyCondition :: string where
  "WorkspaceReadyCondition = ''WorkspaceReady''"

definition ConditionTrue :: string where
  "ConditionTrue = ''True''"

definition ConditionFalse :: string where
  "ConditionFalse = ''False''"

definition AnnotationWorkspaceName :: string where
  "AnnotationWorkspaceName = ''kdp-workspaces.cncf.io/workspace-name''"

definition AnnotationWorkspaceURL :: string where
  "AnnotationWorkspaceURL = ''kdp-workspaces.cncf.io/workspace-url''"

definition AnnotationWorkspacePhase :: string where
  "AnnotationWorkspacePhase = ''kdp-workspaces.cncf.io/workspace-phase''"

text \<open>
  The reads and writes of the controller. It reads the project first as metadata only
  (a \<open>PartialObjectMetadata\<close>) and later, inside \<open>updateCondition\<close>, as an unstructured
  object; these are different requests. \<open>Update\<close> of an object that carries only metadata
  is refused by the client before any request is sent (it supports \<open>Patch\<close> for such
  objects, not \<open>Update\<close>).
\<close>

definition clientGetMetadata :: "cluster \<Rightarrow> string \<Rightarrow> string \<Rightarrow> apiError + ProjectResource" where
  "clientGetMetadata k ns name =
     (if GetMetadataCall ns name \<in> set (refused k) then Inl ServerError
      else case find (isResource ns name) (resources k) of
             None \<Rightarrow> Inl NotFound
           | Some obj \<Rightarrow> Inr obj)"

definition clientUpdateMetadata :: "cluster \<Rightarrow> ProjectResource \<Rightarrow> apiError + cluster" where
  "clientUpdateMetadata k obj = Inl MetadataOnly"

datatype statusError =
  UpdateAnnotationsFailed apiError
| GetCurrentFailed apiError
| StatusUpdateFailed apiError

text \<open>
  \<open>updateCondition\<close>. The conditions read from the status are a \<open>[]metav1.Condition\<close>,
  and that slice is what the function puts under \<open>conditions\<close> in the status map it hands
  to \<open>SetNestedField\<close>.
\<close>

definition updateCondition ::
  "cluster \<Rightarrow> ProjectResource \<Rightarrow> Condition \<Rightarrow> statusError option result \<times> cluster" where
  "updateCondition k project condition =
     (case clientGet k (ObjectNamespace project) (ObjectName project) of
        Inl err \<Rightarrow> (Done (Some (GetCurrentFailed err)), k)
      | Inr currentProject \<Rightarrow>
          let conditions = SetStatusCondition (Conditions currentProject) condition;
              statusMap = setKey ''conditions'' (GoConditions conditions) (statusOf currentProject)
          in case DeepCopyJSONValue (GoMap statusMap) of
               Inl p \<Rightarrow> (Panic p, k)
             | Inr copied \<Rightarrow>
                 (case clientStatusUpdate k (currentProject\<lparr>Conditions := conditions\<rparr>) of
                    Inl err \<Rightarrow> (Done (Some (StatusUpdateFailed err)), k)
                  | Inr k' \<Rightarrow> (Done None, k')))"

text \<open>\<open>updateWorkspaceStatus\<close>.\<close>

definition updateWorkspaceStatus ::
  "cluster \<Rightarrow> ProjectResource \<Rightarrow> WorkspaceInfo \<Rightarrow> statusError option result \<times> cluster" where
  "updateWorkspaceStatus k project info =
     (let annotated = project\<lparr>Annotations :=
            setKey AnnotationWorkspacePhase (InfoPhase info)
              (setKey AnnotationWorkspaceURL (InfoURL info)
                (setKey AnnotationWorkspaceName (InfoName info) (Annotations project)))\<rparr>
      in case clientUpdateMetadata k annotated of
           Inl err \<Rightarrow> (Done (Some (UpdateAnnotationsFailed err)), k)
         | Inr k1 \<Rightarrow>
             updateCondition k1 annotated
               (if Ready info
                then \<lparr>Type = WorkspaceReadyCondition, Status = ConditionTrue,
                      Reason = ''WorkspaceReady'',
                      Message = ''Workspace '' @ InfoName info @ '' is ready at '' @ InfoURL info\<rparr>
                else \<lparr>Type = WorkspaceReadyCondition, Status = ConditionFalse,
                      Reason = ''WorkspaceNotReady'',
                      Message = ''Workspace '' @ InfoName info @ '' is in phase '' @ InfoPhase info\<rparr>))"

subsection \<open>Reconcile\<close>

record ProjectReconciler =
  KCPConfigMapName :: string
  KCPConfigMapNamespace :: string
  KCPSecretName :: string
  KCPSecretNamespace :: string
  WorkspaceType :: string

record world =
  kube :: cluster
  kcp :: kcpServer

datatype reconcileError =
  GetProjectFailed apiError
| LoadConfigFailed configError
| NewClientFailed clientError
| GetWorkspaceFailed kcpError
| CreateWorkspaceFailed kcpError
| WorkspaceNotReady kcpError
| UpdateStatusFailed statusError

text \<open>
  What a call of \<open>Reconcile\<close> ends with: it returns \<open>ctrl.Result{RequeueAfter: d}\<close>
  (\<open>d\<close> in seconds, 0 for the empty result) and an error or nil, or it panics.
\<close>

datatype outcome = Returned nat "reconcileError option" | Panicked panic

text \<open>
  The four error exits of \<open>Reconcile\<close> have one shape: set the condition
  \<open>WorkspaceReady\<close> to false with a reason and a message, log a failure to do so, and
  return the error with a delay. The text of an error inside a message is left out.
\<close>

definition failWith ::
  "world \<Rightarrow> ProjectResource \<Rightarrow> string \<Rightarrow> string \<Rightarrow> nat \<Rightarrow> reconcileError \<Rightarrow> outcome \<times> world" where
  "failWith w project reason message delay err =
     (case updateCondition (kube w) project
             \<lparr>Type = WorkspaceReadyCondition, Status = ConditionFalse,
              Reason = reason, Message = message\<rparr> of
        (Panic p, k1) \<Rightarrow> (Panicked p, w\<lparr>kube := k1\<rparr>)
      | (Done updateErr, k1) \<Rightarrow> (Returned delay (Some err), w\<lparr>kube := k1\<rparr>))"

text \<open>The part of \<open>Reconcile\<close> that follows the creation of the kcp client.\<close>

definition reconcileWorkspace ::
  "(string \<Rightarrow> string) \<Rightarrow> ProjectReconciler \<Rightarrow> world \<Rightarrow> ProjectResource \<Rightarrow> outcome \<times> world" where
  "reconcileWorkspace toLower r w project =
     (let workspaceName = toLower (ObjectName project)
      in case GetWorkspace (kcp w) workspaceName of
           (Inl err, srv1) \<Rightarrow>
             failWith (w\<lparr>kcp := srv1\<rparr>) project ''WorkspaceCheckError''
               ''Failed to check workspace'' 60 (GetWorkspaceFailed err)
         | (Inr (Some workspaceInfo), srv1) \<Rightarrow>
             (case updateWorkspaceStatus (kube w) project workspaceInfo of
                (Panic p, k1) \<Rightarrow> (Panicked p, \<lparr>kube = k1, kcp = srv1\<rparr>)
              | (Done (Some err), k1) \<Rightarrow>
                  (Returned 0 (Some (UpdateStatusFailed err)), \<lparr>kube = k1, kcp = srv1\<rparr>)
              | (Done None, k1) \<Rightarrow>
                  if \<not> Ready workspaceInfo then (Returned 5 None, \<lparr>kube = k1, kcp = srv1\<rparr>)
                  else (Returned 0 None, \<lparr>kube = k1, kcp = srv1\<rparr>))
         | (Inr None, srv1) \<Rightarrow>
             (case updateCondition (kube w) project
                     \<lparr>Type = WorkspaceReadyCondition, Status = ConditionFalse,
                      Reason = ''Creating'', Message = ''Creating workspace in kcp''\<rparr> of
                (Panic p, k1) \<Rightarrow> (Panicked p, \<lparr>kube = k1, kcp = srv1\<rparr>)
              | (Done logged, k1) \<Rightarrow>
                  let workspaceType =
                        (if WorkspaceType r = [] then DefaultWorkspaceType else WorkspaceType r)
                  in case CreateWorkspace srv1 workspaceName (ObjectNamespace project)
                            (ObjectName project) workspaceType of
                       (Inl err, srv2) \<Rightarrow>
                         failWith \<lparr>kube = k1, kcp = srv2\<rparr> project ''CreationFailed''
                           ''Workspace creation failed'' 30 (CreateWorkspaceFailed err)
                     | (Inr createdInfo, srv2) \<Rightarrow>
                         (case WaitForWorkspaceReady srv2 workspaceName of
                            (Inl (err, lastInfo), srv3) \<Rightarrow>
                              (case updateWorkspaceStatus k1 project createdInfo of
                                 (Panic p, k2) \<Rightarrow> (Panicked p, \<lparr>kube = k2, kcp = srv3\<rparr>)
                               | (Done logged', k2) \<Rightarrow>
                                   (Returned 30 (Some (WorkspaceNotReady err)),
                                    \<lparr>kube = k2, kcp = srv3\<rparr>))
                          | (Inr readyInfo, srv3) \<Rightarrow>
                              (case updateWorkspaceStatus k1 project readyInfo of
                                 (Panic p, k2) \<Rightarrow> (Panicked p, \<lparr>kube = k2, kcp = srv3\<rparr>)
                               | (Done (Some err), k2) \<Rightarrow>
                                   (Returned 0 (Some (UpdateStatusFailed err)),
                                    \<lparr>kube = k2, kcp = srv3\<rparr>)
                               | (Done None, k2) \<Rightarrow>
                                   (Returned 0 None, \<lparr>kube = k2, kcp = srv3\<rparr>)))))"

text \<open>\<open>ProjectReconciler.Reconcile\<close>, for the request \<open>(namespace, name)\<close>.\<close>

definition Reconcile ::
  "(string \<Rightarrow> string) \<Rightarrow> (string \<Rightarrow> bool) \<Rightarrow> (Config \<Rightarrow> bool) \<Rightarrow> ProjectReconciler \<Rightarrow> world
   \<Rightarrow> string \<times> string \<Rightarrow> outcome \<times> world" where
  "Reconcile toLower restConfigOK newForConfigOK r w req =
     (case clientGetMetadata (kube w) (fst req) (snd req) of
        Inl err \<Rightarrow>
          if err = NotFound then (Returned 0 None, w)
          else (Returned 0 (Some (GetProjectFailed err)), w)
      | Inr project \<Rightarrow>
          (case LoadConfigFromCluster (kube w) (KCPConfigMapName r) (KCPSecretName r)
                  (KCPConfigMapNamespace r) of
             Inl err \<Rightarrow>
               failWith w project ''ConfigurationError'' ''Failed to load kcp configuration'' 60
                 (LoadConfigFailed err)
           | Inr kcpConfig \<Rightarrow>
               (case NewClient restConfigOK newForConfigOK kcpConfig of
                  Inl err \<Rightarrow>
                    failWith w project ''KCPConnectionError'' ''Failed to create kcp client'' 60
                      (NewClientFailed err)
                | Inr kcpClient \<Rightarrow> reconcileWorkspace toLower r w project)))"

text \<open>The names of the workspaces that a sequence of requests asks the server to create.\<close>

fun createCalls :: "kcpCall list \<Rightarrow> string list" where
  "createCalls [] = []"
| "createCalls (CreateWorkspaceCall name # calls) = name # createCalls calls"
| "createCalls (GetWorkspaceCall name # calls) = createCalls calls"

definition workspacesNamed :: "string \<Rightarrow> kcpServer \<Rightarrow> nat" where
  "workspacesNamed name srv = length (filter (\<lambda>ws. WorkspaceName ws = name) (workspaces srv))"

text \<open>
  A world for the operator: the project \<open>kubernetes\<close> in the namespace \<open>maintainerd\<close>,
  the config map and the secret the operator is configured with, and a kcp server that
  stores no workspace yet and brings a new one to \<open>Ready\<close> at the second poll.
\<close>

definition kubernetesResource :: ProjectResource where
  "kubernetesResource = newProjectResource ''kubernetes'' ''maintainerd''
     (projectSpecFor asciiToLower asciiTrimSpace Map.empty project1)"

definition operator :: ProjectReconciler where
  "operator = \<lparr>KCPConfigMapName = ''kcp-config'', KCPConfigMapNamespace = ''kdp-system'',
     KCPSecretName = ''kcp-kubeconfig'', KCPSecretNamespace = ''kdp-system'',
     WorkspaceType = []\<rparr>"

definition operatorCluster :: cluster where
  "operatorCluster = \<lparr>resources = [kubernetesResource],
     configMaps = [((''kdp-system'', ''kcp-config''), [(''kcp-url'', ''https://kcp.example'')])],
     secrets = [((''kdp-system'', ''kcp-kubeconfig''), [(''kubeconfig'', ''apiVersion: v1'')])],
     refused = []\<rparr>"

definition emptyKcp :: kcpServer where
  "emptyKcp = \<lparr>workspaces = [], kcpRefused = [], requests = [],
     initialPhase = ''Scheduling'', initialURL = [], progress = [''Initializing'', ''Ready'']\<rparr>"

definition operatorWorld :: world where
  "operatorWorld = \<lparr>kube = operatorCluster, kcp = emptyKcp\<rparr>"

text \<open>The same world with an API server that refuses to return the project in full.\<close>

definition guardedWorld :: world where
  "guardedWorld = operatorWorld\<lparr>kube :=
     operatorCluster\<lparr>refused := [GetCall ''maintainerd'' ''kubernetes'']\<rparr>\<rparr>"

text \<open>The same world without the config map.\<close>

definition unconfiguredWorld :: world where
  "unconfiguredWorld = operatorWorld\<lparr>kube := operatorCluster\<lparr>configMaps := []\<rparr>\<rparr>"

definition kubernetesRequest :: "string \<times> string" where
  "kubernetesRequest = (''maintainerd'', ''kubernetes'')"

definition accepts :: "'a \<Rightarrow> bool" where
  "accepts x = True"

section \<open>The onboarding webhook\<close>

subsection \<open>Text\<close>

text \<open>\<open>%d\<close> of \<open>fmt\<close>: a number in decimal.\<close>

definition digit :: "nat \<Rightarrow> char" where
  "digit d = char_of (48 + d)"

function showNat :: "nat \<Rightarrow> string" where
  "showNat n = (if n < 10 then [digit n] else showNat (n div 10) @ [digit (n mod 10)])"
  by pat_completeness auto
termination
  by (relation "measure id") auto

definition showInt :: "int \<Rightarrow> string" where
  "showInt i = (if i < 0 then CHR ''-'' # showNat (nat (- i)) else showNat (nat i))"

text \<open>
  \<open>%v\<close> of a \<open>model.Project\<close> and of an error of the ORM is text that the libraries
  produce; the two renderings are arguments.
\<close>

record rendering =
  showProject :: "Project \<Rightarrow> string"
  showDbError :: "dbError \<Rightarrow> string"

text \<open>The lines of the report, as the handler and \<open>signProjectUpForFOSSA\<close> write them.\<close>

definition reportHeader :: string where
  "reportHeader = ''###  '' @ [CHR 0xF0, CHR 0x9F, CHR 0xA7, CHR 0xAA] @ '' maintainerd - CNCF FOSSA Onboarding Report'' @ [CHR 0x0A, CHR 0x0A]
       @ ''#### :spiral_notepad: Actions taken during onboarding...'' @ [CHR 0x0A, CHR 0x0A]"

definition bullet :: "string \<Rightarrow> string" where
  "bullet action = ''- '' @ action @ [CHR 0x0A]"

definition problemLine :: "string \<Rightarrow> string" where
  "problemLine err = ([CHR 0x0A, CHR 0xE2, CHR 0x9D, CHR 0x8C] @ '' Onboarding encountered some problems: '' @ [CHR 0x60]) @ err @ ([CHR 0x60, CHR 0x0A])"

definition acceptanceInstructions :: "string \<Rightarrow> string" where
  "acceptanceInstructions projectName =
     ''---'' @ [CHR 0x0A, CHR 0x0A] @ ''Once accepted:'' @ [CHR 0x0A, CHR 0x0A]
     @ ''- '' @ [CHR 0xF0, CHR 0x9F, CHR 0x91, CHR 0xA4] @ '' The CNCF Projects Team *must first* add you to the '' @ projectName @
     '' team as a **Team Admin** ([FOSSA RBAC](https://docs.fossa.com/docs/role-based-access-control#team-roles)).'' @ [CHR 0x0A, CHR 0x0A]
     @ ''- '' @ [CHR 0xF0, CHR 0x9F, CHR 0x93, CHR 0xA6] @ '' Then, _and only then_, can you start importing your code and documentation repositories into FOSSA: [Getting Started Guide](https://docs.fossa.com/docs/getting-started#importing-a-project).'' @ [CHR 0x0A, CHR 0x0A]"

definition notRegisteredAction :: "string \<Rightarrow> string" where
  "notRegisteredAction name = '':x: '' @ name @ '' maintainers are not yet registered.''"

definition registeredAction :: "string \<Rightarrow> nat \<Rightarrow> string" where
  "registeredAction name n = ([CHR 0xE2, CHR 0x9C, CHR 0x85] @ ''  '') @ name @ '' has '' @ showNat n @ '' registered maintainers''"

definition retrievingProblemAction :: "string \<Rightarrow> string" where
  "retrievingProblemAction err = '':warning: Problem retrieving serviceTeams.  '' @ err"

definition teamURL :: "int \<Rightarrow> string" where
  "teamURL teamID = ''https://app.fossa.com/account/settings/organization/teams/'' @ showInt teamID"

definition alreadyInFossaAction :: "string \<Rightarrow> int \<Rightarrow> string" where
  "alreadyInFossaAction name teamID =
     ([CHR 0xF0, CHR 0x9F, CHR 0x91, CHR 0xA5] @ '' ['') @ name @ '' team]('' @ teamURL teamID @ '') was already in FOSSA''"

definition creatingProblemAction :: "string \<Rightarrow> string \<Rightarrow> string" where
  "creatingProblemAction name err = '':x: Problem creating team on FOSSA for '' @ name @ '': '' @ err"

definition createdAction :: "string \<Rightarrow> int \<Rightarrow> string" where
  "createdAction name teamID =
     ([CHR 0xF0, CHR 0x9F, CHR 0x91, CHR 0xA5] @ ''  ['') @ name @ '' team]('' @ teamURL teamID @ '') has been created in FOSSA''"

definition notYetRegisteredAction :: "string \<Rightarrow> string" where
  "notYetRegisteredAction name = ''Maintainers not yet registered, for project '' @ name"

definition pendingInvitationAction :: "string \<Rightarrow> string" where
  "pendingInvitationAction account =
     ''@'' @ account @ '' : you have a pending invitation to join CNCF FOSSA. Please check your registered email and accept the invitation within 48 hours.''"

definition invitationProblemAction :: "string \<Rightarrow> string" where
  "invitationProblemAction account =
     ''@'' @ account @ '' : there was a problem sending a CNCF FOSSA invitation to you.''"

subsection \<open>The store functions of the sign-up\<close>

text \<open>
  \<open>GetProjectServiceTeamMap\<close>: the service is looked up by name; the visible teams of
  that service are keyed by project, a later row replacing an earlier one. The error is
  the text of the wrapped error.
\<close>

definition getServiceByName :: "database \<Rightarrow> string \<Rightarrow> dbError + Service" where
  "getServiceByName db name = gormFirst (unavailable db) (\<lambda>svc. ServiceName svc = name) (services db)"

definition GetProjectServiceTeamMap ::
  "rendering \<Rightarrow> database \<Rightarrow> string \<Rightarrow> string + (nat \<rightharpoonup> ServiceTeam)" where
  "GetProjectServiceTeamMap fmt db serviceName =
     (case getServiceByName db serviceName of
        Inl err \<Rightarrow>
          Inl (''failed to get service, '' @ serviceName @ '', by name: '' @ showDbError fmt err)
      | Inr service \<Rightarrow>
          if unavailable db
          then Inl (''querying ServiceTeam for service_id '' @ showNat (ID service) @ '': ''
                    @ showDbError fmt ErrDriver)
          else Inr (fold (\<lambda>st result. result(TeamProjectID st \<mapsto> st))
                      (filter (\<lambda>st. TeamServiceID st = ID service \<and> live st) (service_teams db))
                      Map.empty))"

text \<open>
  \<open>CreateServiceTeam\<close>: \<open>FirstOrCreate\<close> of a completely filled team, looked up by the
  identifier of the team on the remote service.
\<close>

definition CreateServiceTeam ::
  "database \<Rightarrow> nat \<Rightarrow> string \<Rightarrow> int \<Rightarrow> string \<Rightarrow> (dbError + ServiceTeam) \<times> database" where
  "CreateServiceTeam db projectID projectName serviceID serviceName =
     (let st = \<lparr>ID = 0, DeletedAt = None, TeamProjectID = projectID, TeamServiceID = 1,
                 ServiceTeamID = serviceID, ServiceTeamName = Some serviceName,
                 TeamProjectName = Some projectName\<rparr>
      in if unavailable db then (Inl ErrDriver, db)
         else case leastID (filter (\<lambda>t. ServiceTeamID t = serviceID \<and> live t) (service_teams db)) of
                Some found \<Rightarrow> (Inr found, db)
              | None \<Rightarrow>
                  let created = st\<lparr>ID := nextID (service_teams db)\<rparr>
                  in (Inr created, db\<lparr>service_teams := service_teams db @ [created]\<rparr>))"

subsection \<open>FOSSA and GitHub\<close>

text \<open>
  The FOSSA organisation as the client sees it through \<open>CreateTeam\<close> and
  \<open>SendUserInvitation\<close>: its teams, the addresses with a pending invitation, the addresses
  of its members, the calls it answers with some other error (and the text of that
  error), and the calls it has received. Creating a team that exists returns that team.
\<close>

record Team =
  TeamID :: int
  TeamName :: string

datatype fossaCall = CreateTeamCall string | SendUserInvitationCall string

record fossaService =
  fossaTeams :: "Team list"
  nextTeamID :: int
  pendingInvitations :: "string list"
  members :: "string list"
  fossaRefused :: "(fossaCall \<times> string) list"
  fossaCalls :: "fossaCall list"

datatype invitationError =
  ErrInviteAlreadyExists | ErrUserAlreadyMember | InvitationFailed string

definition CreateTeam :: "fossaService \<Rightarrow> string \<Rightarrow> (string + Team) \<times> fossaService" where
  "CreateTeam svc name =
     (let svc1 = svc\<lparr>fossaCalls := fossaCalls svc @ [CreateTeamCall name]\<rparr>
      in case map_of (fossaRefused svc) (CreateTeamCall name) of
           Some err \<Rightarrow> (Inl err, svc1)
         | None \<Rightarrow>
             (case find (\<lambda>team. TeamName team = name) (fossaTeams svc) of
                Some team \<Rightarrow> (Inr team, svc1)
              | None \<Rightarrow>
                  let team = \<lparr>TeamID = nextTeamID svc, TeamName = name\<rparr>
                  in (Inr team, svc1\<lparr>fossaTeams := fossaTeams svc @ [team],
                                     nextTeamID := nextTeamID svc + 1\<rparr>)))"

definition SendUserInvitation ::
  "fossaService \<Rightarrow> string \<Rightarrow> invitationError option \<times> fossaService" where
  "SendUserInvitation svc email =
     (let svc1 = svc\<lparr>fossaCalls := fossaCalls svc @ [SendUserInvitationCall email]\<rparr>
      in case map_of (fossaRefused svc) (SendUserInvitationCall email) of
           Some err \<Rightarrow> (Some (InvitationFailed err), svc1)
         | None \<Rightarrow>
             if email \<in> set (members svc) then (Some ErrUserAlreadyMember, svc1)
             else if email \<in> set (pendingInvitations svc) then (Some ErrInviteAlreadyExists, svc1)
             else (None, svc1\<lparr>pendingInvitations := pendingInvitations svc @ [email]\<rparr>))"

text \<open>
  GitHub as \<open>updateIssue\<close> sees it: the comments it has been asked to create, whether it
  refuses, and the comments it stores.
\<close>

record IssueComment =
  Owner :: string
  Repo :: string
  IssueNumber :: int
  Body :: string

record githubService =
  commentRequests :: "IssueComment list"
  githubRefuses :: bool
  comments :: "IssueComment list"

definition updateIssue ::
  "githubService \<Rightarrow> string \<Rightarrow> string \<Rightarrow> int \<Rightarrow> string \<Rightarrow> bool \<times> githubService" where
  "updateIssue gh owner repo issueNumber comment =
     (let issueComment = \<lparr>Owner = owner, Repo = repo, IssueNumber = issueNumber, Body = comment\<rparr>;
          gh1 = gh\<lparr>commentRequests := commentRequests gh @ [issueComment]\<rparr>
      in if githubRefuses gh then (False, gh1)
         else (True, gh1\<lparr>comments := comments gh @ [issueComment]\<rparr>))"

subsection \<open>Signing a project up\<close>

record onboardingWorld =
  storeDB :: database
  fossaAPI :: fossaService
  githubAPI :: githubService

datatype signupError = NoMaintainersFound Project | NoMaintainersForProject nat

definition signupErrorText :: "rendering \<Rightarrow> signupError \<Rightarrow> string" where
  "signupErrorText fmt err =
     (case err of
        NoMaintainersFound project \<Rightarrow>
          ''signProjectUpForFOSSA: no maintainers found for project '' @ showProject fmt project
          @ '', project ID''
      | NoMaintainersForProject projectID \<Rightarrow>
          '':x: no maintainers found for project '' @ showNat projectID)"

text \<open>The loop over the maintainers: one invitation each, and the actions it adds.\<close>

fun inviteMaintainers ::
  "Maintainer list \<Rightarrow> string list \<Rightarrow> fossaService \<Rightarrow> string list \<times> fossaService" where
  "inviteMaintainers [] actions svc = (actions, svc)"
| "inviteMaintainers (maintainer # rest) actions svc =
     (case SendUserInvitation svc (Email maintainer) of
        (Some ErrInviteAlreadyExists, svc1) \<Rightarrow>
          inviteMaintainers rest (actions @ [pendingInvitationAction (GitHubAccount maintainer)]) svc1
      | (Some ErrUserAlreadyMember, svc1) \<Rightarrow> inviteMaintainers rest actions svc1
      | (Some (InvitationFailed err), svc1) \<Rightarrow>
          inviteMaintainers rest (actions @ [invitationProblemAction (GitHubAccount maintainer)]) svc1
      | (None, svc1) \<Rightarrow> inviteMaintainers rest actions svc1)"

text \<open>
  \<open>signProjectUpForFOSSA\<close>: the actions, the error or nil, and the world left behind.
\<close>

definition signProjectUpForFOSSA ::
  "rendering \<Rightarrow> onboardingWorld \<Rightarrow> Project \<Rightarrow> (string list \<times> signupError option) \<times> onboardingWorld" where
  "signProjectUpForFOSSA fmt w project =
     (case GetMaintainersByProject (storeDB w) (ID project) of
        Inl err \<Rightarrow>
          (([notRegisteredAction (ProjectName project)], Some (NoMaintainersFound project)), w)
      | Inr registered \<Rightarrow>
          let actions1 = [registeredAction (ProjectName project) (length registered)];
              loaded = GetProjectServiceTeamMap fmt (storeDB w) ''FOSSA'';
              actions2 = (case loaded of
                            Inl err \<Rightarrow> actions1 @ [retrievingProblemAction err]
                          | Inr serviceTeams \<Rightarrow> actions1);
              serviceTeams = (case loaded of Inl err \<Rightarrow> Map.empty | Inr teams \<Rightarrow> teams);
              teamed =
                (case serviceTeams (ID project) of
                   Some st \<Rightarrow>
                     (actions2 @ [alreadyInFossaAction (ProjectName project) (ServiceTeamID st)], w)
                 | None \<Rightarrow>
                     (case CreateTeam (fossaAPI w) (ProjectName project) of
                        (Inl err, svc1) \<Rightarrow>
                          (actions2 @ [creatingProblemAction (ProjectName project) err],
                           w\<lparr>fossaAPI := svc1\<rparr>)
                      | (Inr team, svc1) \<Rightarrow>
                          (actions2 @ [createdAction (TeamName team) (TeamID team)],
                           w\<lparr>fossaAPI := svc1,
                             storeDB := snd (CreateServiceTeam (storeDB w) (ID project)
                                               (ProjectName project) (TeamID team) (TeamName team))\<rparr>)));
              actions3 = fst teamed;
              w1 = snd teamed
          in if length registered = 0
             then ((actions3 @ [notYetRegisteredAction (ProjectName project)],
                    Some (NoMaintainersForProject (ID project))), w1)
             else
               let invited = inviteMaintainers registered actions3 (fossaAPI w1)
               in ((fst invited, None), w1\<lparr>fossaAPI := snd invited\<rparr>))"

subsection \<open>The handler\<close>

text \<open>
  An HTTP request, and the events that a payload can parse to: an \<open>IssuesEvent\<close> as far as
  the handler reads it (a label is its name), or an event of another type.
\<close>

record httpRequest =
  Headers :: "(string \<times> string) list"
  RequestBody :: string

record Issue =
  Title :: string
  IssueURL :: string
  Labels :: "string list"
  Number :: int

record IssuesEvent =
  Action :: string
  EventIssue :: "Issue option"
  RepoOwner :: string
  RepoName :: string

datatype event = IssuesEventOf IssuesEvent | OtherEvent

text \<open>
  The functions of the GitHub library that the handler calls, \<open>github.ValidatePayload\<close>
  (the payload, or \<open>None\<close> when the validation of the signature or of the body fails),
  \<open>github.WebHookType\<close> and \<open>github.ParseWebHook\<close>, and the function
  \<open>GetProjectNameFromProjectTitle\<close> of the onboarding package, whose source is not part
  of the files at hand. All four are arguments.
\<close>

record webhookLibrary =
  ValidatePayload :: "httpRequest \<Rightarrow> string \<Rightarrow> string option"
  WebHookType :: "httpRequest \<Rightarrow> string"
  ParseWebHook :: "string \<Rightarrow> string \<Rightarrow> event option"
  GetProjectNameFromProjectTitle :: "string \<Rightarrow> string option"

record EventListener =
  Secret :: string
  Projects :: "string \<rightharpoonup> Project"

text \<open>The zero value of \<open>model.Project\<close>, which a Go map returns for a missing key.\<close>

definition zeroProject :: Project where
  "zeroProject = \<lparr>ID = 0, DeletedAt = None, ProjectName = [], ParentProjectID = None,
     Maturity = [], MaintainerRef = [], OnboardingIssue = None, MailingList = None,
     Maintainers = []\<rparr>"

text \<open>The comment that the handler writes from the actions and the error of the sign-up.\<close>

definition onboardingReport :: "rendering \<Rightarrow> string \<Rightarrow> string list \<Rightarrow> signupError option \<Rightarrow> string" where
  "onboardingReport fmt projectName actions err =
     reportHeader @ concat (map bullet actions)
     @ (case err of
          Some problem \<Rightarrow> problemLine (signupErrorText fmt problem)
        | None \<Rightarrow> acceptanceInstructions projectName)"

text \<open>What the handler does for a label named \<open>fossa\<close> once the title has given a project name.\<close>

definition fossaLabelled ::
  "rendering \<Rightarrow> EventListener \<Rightarrow> IssuesEvent \<Rightarrow> Issue \<Rightarrow> string \<Rightarrow> onboardingWorld \<Rightarrow> onboardingWorld" where
  "fossaLabelled fmt s e issue projectName w =
     (let project = (case Projects s projectName of Some p \<Rightarrow> p | None \<Rightarrow> zeroProject);
          signed = signProjectUpForFOSSA fmt w project;
          comment = onboardingReport fmt projectName (fst (fst signed)) (snd (fst signed));
          w1 = snd signed;
          posted = updateIssue (githubAPI w1) (RepoOwner e) (RepoName e) (Number issue) comment
      in w1\<lparr>githubAPI := snd posted\<rparr>)"

text \<open>The loop over the labels of the issue.\<close>

fun handleLabels ::
  "rendering \<Rightarrow> webhookLibrary \<Rightarrow> EventListener \<Rightarrow> IssuesEvent \<Rightarrow> Issue \<Rightarrow> string list
   \<Rightarrow> onboardingWorld \<Rightarrow> onboardingWorld" where
  "handleLabels fmt lib s e issue [] w = w"
| "handleLabels fmt lib s e issue (name # rest) w =
     (if name = ''fossa''
      then (case GetProjectNameFromProjectTitle lib (Title issue) of
              None \<Rightarrow> handleLabels fmt lib s e issue rest w
            | Some projectName \<Rightarrow>
                handleLabels fmt lib s e issue rest (fossaLabelled fmt s e issue projectName w))
      else handleLabels fmt lib s e issue rest w)"

text \<open>
  \<open>EventListener.handleWebhook\<close>: the status the handler answers with, or a panic for an
  issues event without an issue, and the world left behind.
\<close>

datatype httpResponse = Responded nat | HandlerPanicked

definition handleWebhook ::
  "rendering \<Rightarrow> webhookLibrary \<Rightarrow> EventListener \<Rightarrow> httpRequest \<Rightarrow> onboardingWorld
   \<Rightarrow> httpResponse \<times> onboardingWorld" where
  "handleWebhook fmt lib s r w =
     (case ValidatePayload lib r (Secret s) of
        None \<Rightarrow> (Responded 401, w)
      | Some payload \<Rightarrow>
          (case ParseWebHook lib (WebHookType lib r) payload of
             None \<Rightarrow> (Responded 400, w)
           | Some (IssuesEventOf e) \<Rightarrow>
               if Action e \<noteq> ''labeled'' then (Responded 200, w)
               else (case EventIssue e of
                       None \<Rightarrow> (HandlerPanicked, w)
                     | Some issue \<Rightarrow>
                         (Responded 200, handleLabels fmt lib s e issue (Labels issue) w))
           | Some OtherEvent \<Rightarrow> (Responded 200, w)))"

subsection \<open>A listener, its requests and its world\<close>

text \<open>
  Stand-ins for the library: a request is valid when its signature header is the secret,
  the payloads \<open>labeled\<close> and \<open>closed\<close> parse to the two events below, and a title names
  the project after the prefix the onboarding issues carry.
\<close>

definition labeledEvent :: IssuesEvent where
  "labeledEvent = \<lparr>Action = ''labeled'',
     EventIssue = Some \<lparr>Title = ''[PROJECT ONBOARDING] kubernetes'',
       IssueURL = ''https://api.github.com/repos/cncf/onboarding/issues/42'',
       Labels = [''onboarding'', ''fossa''], Number = 42\<rparr>,
     RepoOwner = ''cncf'', RepoName = ''onboarding''\<rparr>"

definition closedEvent :: IssuesEvent where
  "closedEvent = labeledEvent\<lparr>Action := ''closed''\<rparr>"

definition standInLibrary :: webhookLibrary where
  "standInLibrary = \<lparr>
     ValidatePayload = (\<lambda>r secret.
        if dataOf ''X-Hub-Signature-256'' (Headers r) = secret then Some (RequestBody r) else None),
     WebHookType = (\<lambda>r. dataOf ''X-GitHub-Event'' (Headers r)),
     ParseWebHook = (\<lambda>eventType payload.
        if eventType = ''issues'' \<and> payload = ''labeled'' then Some (IssuesEventOf labeledEvent)
        else if eventType = ''issues'' \<and> payload = ''closed'' then Some (IssuesEventOf closedEvent)
        else if eventType = ''ping'' then Some OtherEvent
        else None),
     GetProjectNameFromProjectTitle = (\<lambda>title.
        if take 21 title = ''[PROJECT ONBOARDING] '' then Some (drop 21 title) else None)\<rparr>"

definition plainRendering :: rendering where
  "plainRendering = \<lparr>showProject = ProjectName,
     showDbError = (\<lambda>err. if err = ErrRecordNotFound then ''record not found'' else ''database error'')\<rparr>"

definition listener :: EventListener where
  "listener = \<lparr>Secret = ''s3cret'', Projects = projectsByNameOf (loadedProjects seedTestData)\<rparr>"

definition labeledRequest :: httpRequest where
  "labeledRequest = \<lparr>Headers = [(''X-Hub-Signature-256'', ''s3cret''), (''X-GitHub-Event'', ''issues'')],
     RequestBody = ''labeled''\<rparr>"

definition forgedRequest :: httpRequest where
  "forgedRequest = labeledRequest\<lparr>Headers := [(''X-Hub-Signature-256'', ''guess''), (''X-GitHub-Event'', ''issues'')]\<rparr>"

definition garbledRequest :: httpRequest where
  "garbledRequest = labeledRequest\<lparr>RequestBody := ''{''\<rparr>"

definition onboardingTestWorld :: onboardingWorld where
  "onboardingTestWorld = \<lparr>
     storeDB = seedTestData\<lparr>services := [\<lparr>ID = 1, DeletedAt = None, ServiceName = ''FOSSA'',
                                            Description = []\<rparr>]\<rparr>,
     fossaAPI = \<lparr>fossaTeams = [], nextTeamID = 1001, pendingInvitations = [],
                 members = [''bob@example.com''], fossaRefused = [], fossaCalls = []\<rparr>,
     githubAPI = \<lparr>commentRequests = [], githubRefuses = False, comments = []\<rparr>\<rparr>"

section \<open>Properties of the object names\<close>

lemma replaceInvalidRuns_chars: "list_all dns1123Char (replaceInvalidRuns s)"
  by (induction s rule: replaceInvalidRuns.induct) (auto simp: dns1123Char_def)

lemma trimCutset_subset: "set (trimCutset s cutset) \<subseteq> set s"
  by (auto simp: trimCutset_def dest!: set_dropWhileD)

lemma trimCutset_length: "length (trimCutset s cutset) \<le> length s"
  unfolding trimCutset_def
  by (metis length_dropWhile_le length_rev order_trans)

lemma trimCutset_ends:
  assumes "trimCutset s cutset \<noteq> []"
  shows "hd (trimCutset s cutset) \<notin> set cutset \<and> last (trimCutset s cutset) \<notin> set cutset"
proof -
  let ?P = "\<lambda>c. c \<in> set cutset"
  let ?t = "dropWhile ?P s"
  let ?u = "dropWhile ?P (rev ?t)"
  have u: "?u \<noteq> []" using assms by (simp add: trimCutset_def)
  then have t: "?t \<noteq> []" by (metis dropWhile.simps(1) rev_is_Nil_conv)
  have "last (rev ?u) = hd ?u" using u by (simp add: last_rev)
  moreover have "\<not> ?P (hd ?u)" using u by (rule hd_dropWhile)
  moreover have "hd (rev ?u) = last ?u" using u by (simp add: hd_rev)
  moreover have "last ?u = last (rev ?t)"
    using u by (metis takeWhile_dropWhile_id last_appendR)
  moreover have "last (rev ?t) = hd ?t" using t by (simp add: last_rev)
  moreover have "\<not> ?P (hd ?t)" using t by (rule hd_dropWhile)
  ultimately show ?thesis by (simp add: trimCutset_def)
qed

lemma dns1123_lower: "dns1123Char c \<Longrightarrow> asciiLowerChar c = c"
  by (auto simp: dns1123Char_def asciiLowerChar_def byte_def)

lemma unnamed_ok:
  "list_all dns1123Char ''unnamed'' \<and> hd ''unnamed'' \<notin> set ''-.'' \<and> last ''unnamed'' \<notin> set ''-.''"
  by (simp add: dns1123Char_def byte_def)

text \<open>
  C9. Whatever the two library calls return, \<open>sanitizeName\<close> yields a non-empty name of
  at most 63 bytes, made of \<open>a-z\<close>, \<open>0-9\<close>, \<open>-\<close> and \<open>.\<close> only (so lowercasing
  leaves it unchanged), that neither starts nor ends with \<open>-\<close> or \<open>.\<close>; an empty
  input, and an input of which nothing is left after replacing and trimming, give
  \<open>unnamed\<close>.
\<close>

theorem sanitizeName_dns1123_label:
  "sanitizeName toLower trimSpace s \<noteq> []
   \<and> length (sanitizeName toLower trimSpace s) \<le> 63
   \<and> list_all dns1123Char (sanitizeName toLower trimSpace s)
   \<and> asciiToLower (sanitizeName toLower trimSpace s) = sanitizeName toLower trimSpace s
   \<and> hd (sanitizeName toLower trimSpace s) \<notin> {CHR ''-'', CHR ''.''}
   \<and> last (sanitizeName toLower trimSpace s) \<notin> {CHR ''-'', CHR ''.''}
   \<and> (s = [] \<or> trimCutset (replaceInvalidRuns (toLower (trimSpace s))) ''-.'' = []
        \<longrightarrow> sanitizeName toLower trimSpace s = ''unnamed'')"
proof -
  let ?s3 = "trimCutset (replaceInvalidRuns (toLower (trimSpace s))) ''-.''"
  let ?s4 = "if length ?s3 > 63 then trimCutset (take 63 ?s3) ''-.'' else ?s3"
  let ?r = "sanitizeName toLower trimSpace s"
  have r: "?r = (if s = [] \<or> ?s3 = [] \<or> ?s4 = [] then ''unnamed'' else ?s4)"
    by (simp add: sanitizeName_def Let_def)
  have s3_chars: "list_all dns1123Char ?s3"
    using replaceInvalidRuns_chars [of "toLower (trimSpace s)"] trimCutset_subset
    by (auto simp: list_all_iff)
  have s4_chars: "list_all dns1123Char ?s4"
    using s3_chars trimCutset_subset [of "take 63 ?s3" "''-.''"]
    by (auto simp: list_all_iff dest: in_set_takeD)
  have s4_len: "length ?s4 \<le> 63"
    using trimCutset_length [of "take 63 ?s3" "''-.''"] by auto
  have s4_ends: "?s4 \<noteq> [] \<Longrightarrow> hd ?s4 \<notin> set ''-.'' \<and> last ?s4 \<notin> set ''-.''"
    using trimCutset_ends [of "take 63 ?s3" "''-.''"]
      trimCutset_ends [of "replaceInvalidRuns (toLower (trimSpace s))" "''-.''"]
    by (auto split: if_splits)
  have chars: "list_all dns1123Char ?r"
    using s4_chars unnamed_ok by (simp add: r)
  have lower: "asciiToLower ?r = ?r"
    using chars by (simp add: asciiToLower_def list_all_iff map_idI dns1123_lower)
  have ne: "?r \<noteq> []" by (simp add: r)
  have len: "length ?r \<le> 63" using s4_len by (simp add: r)
  have ends: "hd ?r \<notin> set ''-.'' \<and> last ?r \<notin> set ''-.''"
    using s4_ends unnamed_ok by (simp add: r)
  have un: "s = [] \<or> ?s3 = [] \<longrightarrow> ?r = ''unnamed''" by (simp add: r)
  from ne len chars lower ends un show ?thesis by simp
qed

theorem sanitizeName_dns1123_label_witness:
  "sanitizeName asciiToLower asciiTrimSpace ''Foo Bar@Example.COM '' = ''foo-bar-example.com''
   \<and> sanitizeName asciiToLower asciiTrimSpace '' -.- '' = ''unnamed''
   \<and> list_all dns1123Char (sanitizeName asciiToLower asciiTrimSpace ''Foo Bar@Example.COM '')"
  using sanitizeName_dns1123_label [of asciiToLower asciiTrimSpace "''Foo Bar@Example.COM ''"]
    sanitizeName_dns1123_label [of asciiToLower asciiTrimSpace "'' -.- ''"]
  by code_simp

section \<open>Properties of the database functions\<close>

lemma leastID_None: "leastID rs = None \<longleftrightarrow> rs = []"
  by (induction rs) (auto split: option.splits)

lemma leastID_Some:
  "leastID rs = Some r \<Longrightarrow> r \<in> set rs \<and> (\<forall>r' \<in> set rs. ID r \<le> ID r')"
  by (induction rs arbitrary: r) (fastforce split: option.splits if_splits simp: leastID_None)+

lemma gormFirst_NotFound:
  "gormFirst False cond rows = Inl ErrRecordNotFound \<longleftrightarrow> \<not> (\<exists>r \<in> set rows. cond r \<and> live r)"
  by (auto simp: gormFirst_def leastID_None filter_empty_conv split: option.splits dest!: leastID_Some)

lemma gormFirst_Found:
  assumes "gormFirst False cond rows = Inr r"
  shows "r \<in> set rows \<and> live r \<and> cond r \<and> (\<forall>r' \<in> set rows. live r' \<and> cond r' \<longrightarrow> ID r \<le> ID r')"
proof -
  from assms have "leastID (filter (\<lambda>r. cond r \<and> live r) rows) = Some r"
    by (simp add: gormFirst_def split: option.splits)
  from leastID_Some [OF this] show ?thesis by auto
qed

lemma gormFirst_cases:
  obtains (missing) "gormFirst False cond rows = Inl ErrRecordNotFound"
  | (found) r where "gormFirst False cond rows = Inr r"
proof (cases "gormFirst False cond rows")
  case (Inl err)
  then have "err = ErrRecordNotFound"
    by (auto simp: gormFirst_def split: option.splits)
  with Inl missing show ?thesis by simp
next
  case (Inr r)
  with found show ?thesis by simp
qed

lemma emailLookup_None:
  assumes "\<not> unavailable db"
  shows "emailLookup sqlLower toLower db email = None \<longleftrightarrow> \<not> someMatch (emailCond sqlLower toLower email) db"
proof (cases rule: gormFirst_cases [of "emailCond sqlLower toLower email" "maintainers db"])
  case missing
  then have "emailLookup sqlLower toLower db email = None"
    using assms by (simp add: emailLookup_def)
  moreover from missing have "\<not> someMatch (emailCond sqlLower toLower email) db"
    unfolding gormFirst_NotFound someMatch_def by blast
  ultimately show ?thesis by simp
next
  case (found r)
  then have "emailLookup sqlLower toLower db email = Some r"
    using assms by (simp add: emailLookup_def)
  moreover from gormFirst_Found [OF found] have "someMatch (emailCond sqlLower toLower email) db"
    unfolding someMatch_def by blast
  ultimately show ?thesis by simp
qed

lemma emailLookup_Some:
  "\<not> unavailable db \<Longrightarrow> emailLookup sqlLower toLower db email = Some m \<Longrightarrow>
   firstMatch (emailCond sqlLower toLower email) db m"
  by (cases rule: gormFirst_cases [of "emailCond sqlLower toLower email" "maintainers db"])
     (auto simp: emailLookup_def firstMatch_def dest!: gormFirst_Found)


lemma MapFossaUserToMaintainer_cases:
  assumes up: "\<not> unavailable db"
  shows "(github \<noteq> [] \<and> someMatch (handleCond sqlLower toLower github) db \<longrightarrow>
            (\<exists>m. MapFossaUserToMaintainer sqlLower toLower db email github = Some m
                 \<and> firstMatch (handleCond sqlLower toLower github) db m))
       \<and> (\<not> (github \<noteq> [] \<and> someMatch (handleCond sqlLower toLower github) db)
            \<and> someMatch (emailCond sqlLower toLower email) db \<longrightarrow>
            (\<exists>m. MapFossaUserToMaintainer sqlLower toLower db email github = Some m
                 \<and> firstMatch (emailCond sqlLower toLower email) db m))
       \<and> (MapFossaUserToMaintainer sqlLower toLower db email github = None \<longleftrightarrow>
            \<not> (github \<noteq> [] \<and> someMatch (handleCond sqlLower toLower github) db)
            \<and> \<not> someMatch (emailCond sqlLower toLower email) db)"
proof (cases "github \<noteq> [] \<and> someMatch (handleCond sqlLower toLower github) db")
  case True
  then have "gormFirst False (handleCond sqlLower toLower github) (maintainers db) \<noteq> Inl ErrRecordNotFound"
    by (auto simp: gormFirst_NotFound someMatch_def)
  then obtain m where m: "gormFirst False (handleCond sqlLower toLower github) (maintainers db) = Inr m"
    by (cases rule: gormFirst_cases [of "handleCond sqlLower toLower github" "maintainers db"]) auto
  from gormFirst_Found [OF m] have "firstMatch (handleCond sqlLower toLower github) db m"
    by (auto simp: firstMatch_def)
  moreover have "MapFossaUserToMaintainer sqlLower toLower db email github = Some m"
    using True m up by (simp add: MapFossaUserToMaintainer_def)
  ultimately show ?thesis using True by auto
next
  case False
  have eq: "MapFossaUserToMaintainer sqlLower toLower db email github = emailLookup sqlLower toLower db email"
  proof (cases "github = []")
    case True
    then show ?thesis by (simp add: MapFossaUserToMaintainer_def)
  next
    case nonempty: False
    with False have "gormFirst False (handleCond sqlLower toLower github) (maintainers db) = Inl ErrRecordNotFound"
      by (auto simp: gormFirst_NotFound someMatch_def)
    then show ?thesis using nonempty up by (simp add: MapFossaUserToMaintainer_def)
  qed
  show ?thesis
  proof (cases "emailLookup sqlLower toLower db email")
    case None
    then show ?thesis using False eq emailLookup_None [OF up, of sqlLower toLower email] by auto
  next
    case (Some m)
    then show ?thesis
      using False eq emailLookup_None [OF up, of sqlLower toLower email]
        emailLookup_Some [OF up Some] by auto
  qed
qed

text \<open>
  The comparison the queries make, \<open>LOWER(column) = strings.ToLower(argument)\<close>, is
  equality up to the case of ASCII letters when the argument is ASCII text, whatever the
  column holds and whatever the case table beyond ASCII is.
\<close>

lemma ToLower_ascii: "isASCII s \<Longrightarrow> ToLower lower s = asciiToLower s"
  by (simp add: ToLower_def)

lemma sqliteLower_ascii: "sqliteLower s = asciiToLower s"
  by (simp add: sqliteLower_def asciiToLower_def)

lemma handleCond_ascii:
  "isASCII github \<Longrightarrow> handleCond sqliteLower (ToLower lower) github = handleEquals github"
  by (rule ext) (simp add: handleCond_def handleEquals_def equalsIgnoringCase_def ToLower_ascii sqliteLower_ascii)

lemma emailCond_ascii:
  "isASCII email \<Longrightarrow> emailCond sqliteLower (ToLower lower) email = emailEquals email"
  by (rule ext) (simp add: emailCond_def emailEquals_def equalsIgnoringCase_def ToLower_ascii sqliteLower_ascii)

text \<open>
  C2, for ASCII input. On a database that answers its queries, and for a GitHub handle
  and an email that are ASCII text: when the handle is not empty and some visible maintainer's
  \<open>GitHubAccount\<close> equals it up to case, \<open>MapFossaUserToMaintainer\<close> returns the first
  such maintainer; otherwise it returns the first visible maintainer whose \<open>Email\<close> or
  \<open>GitHubEmail\<close> equals the email up to case; and it returns nil exactly when neither
  lookup has a match. First means least primary key; the database lowers with SQLite's
  \<open>LOWER\<close> and the program with \<open>strings.ToLower\<close>, for any case table of the
  library.
\<close>

theorem MapFossaUserToMaintainer_lookup:
  assumes up: "\<not> unavailable db" and handle: "isASCII github" and mail: "isASCII email"
  shows "(github \<noteq> [] \<and> someMatch (handleEquals github) db \<longrightarrow>
            (\<exists>m. MapFossaUserToMaintainer sqliteLower (ToLower lower) db email github = Some m
                 \<and> firstMatch (handleEquals github) db m))
       \<and> (\<not> (github \<noteq> [] \<and> someMatch (handleEquals github) db)
            \<and> someMatch (emailEquals email) db \<longrightarrow>
            (\<exists>m. MapFossaUserToMaintainer sqliteLower (ToLower lower) db email github = Some m
                 \<and> firstMatch (emailEquals email) db m))
       \<and> (MapFossaUserToMaintainer sqliteLower (ToLower lower) db email github = None \<longleftrightarrow>
            \<not> (github \<noteq> [] \<and> someMatch (handleEquals github) db)
            \<and> \<not> someMatch (emailEquals email) db)"
  using MapFossaUserToMaintainer_cases [OF up, of github sqliteLower "ToLower lower" email]
  unfolding handleCond_ascii [OF handle] emailCond_ascii [OF mail] .

text \<open>
  The claim as it is written fails on a handle with a letter outside ASCII. The stored
  handle and the handle asked for are the same bytes, so they are equal whatever the
  case; \<open>strings.ToLower\<close> lowers the capital E with acute accent and SQLite's \<open>LOWER\<close>
  does not, the query finds no row, no email matches either, and the result is nil.
\<close>

theorem MapFossaUserToMaintainer_misses_accented_handle:
  "accentedMaintainer \<in> set (maintainers accentedData)
   \<and> live accentedMaintainer
   \<and> GitHubAccount accentedMaintainer = accentedHandle
   \<and> accentedHandle \<noteq> []
   \<and> equalsIgnoringCase (GitHubAccount accentedMaintainer) accentedHandle
   \<and> someMatch (handleEquals accentedHandle) accentedData
   \<and> \<not> unavailable accentedData
   \<and> MapFossaUserToMaintainer sqliteLower (ToLower (unicodeToLower id)) accentedData
        ''nobody@example.com'' accentedHandle = None"
  by code_simp


theorem MapFossaUserToMaintainer_lookup_witness:
  "\<not> unavailable seedTestData \<and> isASCII ''BOB'' \<and> isASCII ''zed'' \<and> isASCII ''Alice@Example.com''
   \<and> someMatch (handleEquals ''BOB'') seedTestData
   \<and> MapFossaUserToMaintainer sqliteLower (ToLower (unicodeToLower id)) seedTestData
        ''Alice@Example.com'' ''BOB'' = Some maintainer2
   \<and> firstMatch (handleEquals ''BOB'') seedTestData maintainer2
   \<and> MapFossaUserToMaintainer sqliteLower (ToLower (unicodeToLower id)) seedTestData
        ''Alice@Example.com'' ''zed'' = Some maintainer1
   \<and> firstMatch (emailEquals ''Alice@Example.com'') seedTestData maintainer1
   \<and> MapFossaUserToMaintainer sqliteLower (ToLower (unicodeToLower id)) seedTestData
        ''zed@example.com'' ''zed'' = None"
proof -
  let ?lower = "unicodeToLower id"
  have up: "\<not> unavailable seedTestData" by (simp add: seedTestData_def)
  have a: "isASCII ''BOB''" "isASCII ''zed''" "isASCII ''Alice@Example.com''" "isASCII ''zed@example.com''"
    by code_simp+
  have h: "''BOB'' \<noteq> [] \<and> someMatch (handleEquals ''BOB'') seedTestData"
    by code_simp
  have e: "\<not> (''zed'' \<noteq> [] \<and> someMatch (handleEquals ''zed'') seedTestData)
           \<and> someMatch (emailEquals ''Alice@Example.com'') seedTestData"
    by code_simp
  have n: "\<not> (''zed'' \<noteq> [] \<and> someMatch (handleEquals ''zed'') seedTestData)
           \<and> \<not> someMatch (emailEquals ''zed@example.com'') seedTestData"
    by code_simp
  have v: "MapFossaUserToMaintainer sqliteLower (ToLower ?lower) seedTestData
             ''Alice@Example.com'' ''BOB'' = Some maintainer2"
     "MapFossaUserToMaintainer sqliteLower (ToLower ?lower) seedTestData
             ''Alice@Example.com'' ''zed'' = Some maintainer1"
    by code_simp+
  from MapFossaUserToMaintainer_lookup [OF up a(1) a(3), of ?lower] h v(1)
  have 1: "firstMatch (handleEquals ''BOB'') seedTestData maintainer2"
    by auto
  from MapFossaUserToMaintainer_lookup [OF up a(2) a(3), of ?lower] e v(2)
  have 2: "firstMatch (emailEquals ''Alice@Example.com'') seedTestData maintainer1"
    by auto
  from MapFossaUserToMaintainer_lookup [OF up a(2) a(4), of ?lower] n
  have 3: "MapFossaUserToMaintainer sqliteLower (ToLower ?lower) seedTestData ''zed@example.com'' ''zed'' = None"
    by blast
  from up a h v 1 2 3 show ?thesis by blast
qed


section \<open>Linking rows and the uniqueness of names\<close>

text \<open>
  C3. The claim is that a second run of \<open>LinkServiceUserToTeam\<close> with the same arguments
  inserts no row, so that a (service, team, user) triple has at most one linking row. The
  row that \<open>FirstOrCreate\<close> inserts is the one the function filled in, with service 1
  and no team, so the lookup of the next run, by the team's key, does not find it.
  Linking user 7 to team 5 twice leaves two rows, both with team 0.
\<close>

theorem LinkServiceUserToTeam_second_run_adds_row:
  "(let first = LinkServiceUserToTeam fossaTestData (Some fossaUser) [Some fossaTeam] (Some maintainer1) None;
           second = LinkServiceUserToTeam (snd first) (Some fossaUser) [Some fossaTeam] (Some maintainer1) None
       in fst first = Done None \<and> fst second = Done None
          \<and> service_user_teams (snd first) =
              [\<lparr>ID = 1, DeletedAt = None, LinkServiceID = 1, LinkServiceUserID = 7,
                LinkServiceTeamID = 0, LinkMaintainerID = Some 1, LinkCollaboratorID = None\<rparr>]
          \<and> service_user_teams (snd second) =
              [\<lparr>ID = 1, DeletedAt = None, LinkServiceID = 1, LinkServiceUserID = 7,
                LinkServiceTeamID = 0, LinkMaintainerID = Some 1, LinkCollaboratorID = None\<rparr>,
               \<lparr>ID = 2, DeletedAt = None, LinkServiceID = 1, LinkServiceUserID = 7,
                LinkServiceTeamID = 0, LinkMaintainerID = Some 1, LinkCollaboratorID = None\<rparr>])"
  by code_simp

text \<open>
  C6. The claim is that inserting a second project, or a second company, with a name that
  is already stored fails. The tag of \<open>Project.Name\<close> separates \<open>uniqueIndex\<close> from
  \<open>not null\<close> with a comma, so the migration sees one setting of an unknown name and
  builds no unique index: a second \<open>kubernetes\<close> is stored. The tag of \<open>Company.Name\<close> is
  read as a unique index and the second \<open>Test Company\<close> is refused.
\<close>

theorem createProject_accepts_second_name:
  "ProjectName secondKubernetes \<in> set (map ProjectName (projects seedTestData))
   \<and> createProject seedTestData secondKubernetes
       = Inr (secondKubernetes\<lparr>ID := 4\<rparr>,
              seedTestData\<lparr>projects := [project1, project2, emptyProject, secondKubernetes\<lparr>ID := 4\<rparr>]\<rparr>)
   \<and> createCompany seedTestData secondTestCompany = Inl ErrConstraint"
  by code_simp

text \<open>For companies the rejection holds in general.\<close>

lemma createCompany_rejects_second_name:
  "CompanyName c \<in> set (map CompanyName (companies db)) \<Longrightarrow> \<not> unavailable db \<Longrightarrow>
   createCompany db c = Inl ErrConstraint"
proof -
  have "uniqueColumn CompanyNameTag" by code_simp
  then show "CompanyName c \<in> set (map CompanyName (companies db)) \<Longrightarrow> \<not> unavailable db \<Longrightarrow>
   createCompany db c = Inl ErrConstraint"
    by (simp add: createCompany_def)
qed

section \<open>Properties of the sync job\<close>

lemma fold_parent_dom:
  "dom (fold (\<lambda>p byID. byID(ID p \<mapsto> ProjectName p)) ps m) = dom m \<union> ID ` set ps"
  by (induction ps arbitrary: m) auto

lemma parentNameByIDOf_dom: "dom (parentNameByIDOf ps) = ID ` set ps"
  by (simp add: parentNameByIDOf_def fold_parent_dom)

lemma fold_parent_Some:
  "fold (\<lambda>p byID. byID(ID p \<mapsto> ProjectName p)) ps m k = Some n \<Longrightarrow>
   m k = Some n \<or> (\<exists>q \<in> set ps. ID q = k \<and> ProjectName q = n)"
  by (induction ps arbitrary: m) (fastforce split: if_splits)+

lemma parentNameByIDOf_Some:
  "parentNameByIDOf ps k = Some n \<Longrightarrow> \<exists>q \<in> set ps. ID q = k \<and> ProjectName q = n"
  using fold_parent_Some [of ps Map.empty k n] by (simp add: parentNameByIDOf_def)

lemma fold_byName:
  "fold (\<lambda>p byName. byName(ProjectName p \<mapsto> p)) ps m
   = m ++ map_of (rev (map (\<lambda>p. (ProjectName p, p)) ps))"
proof (induction ps arbitrary: m)
  case Nil
  then show ?case by simp
next
  case (Cons p ps)
  let ?rest = "map_of (rev (map (\<lambda>p. (ProjectName p, p)) ps))"
  have "fold (\<lambda>p byName. byName(ProjectName p \<mapsto> p)) (p # ps) m
        = fold (\<lambda>p byName. byName(ProjectName p \<mapsto> p)) ps (m(ProjectName p \<mapsto> p))"
    by simp
  also have "\<dots> = m(ProjectName p \<mapsto> p) ++ ?rest"
    by (rule Cons.IH)
  also have "\<dots> = m ++ (map_of [(ProjectName p, p)] ++ ?rest)"
    by (rule ext) (simp add: map_add_def split: option.splits)
  also have "map_of [(ProjectName p, p)] ++ ?rest
             = map_of (rev (map (\<lambda>p. (ProjectName p, p)) (p # ps)))"
    by (simp add: map_of_append)
  finally show ?case .
qed

lemma byName_dom: "dom (projectsByNameOf ps) = ProjectName ` set ps"
  by (simp add: projectsByNameOf_def fold_byName dom_map_of_conv_image_fst image_image)

text \<open>A later row of the same name replaces an earlier one in the map.\<close>

lemma byName_Cons:
  "projectsByNameOf (p # ps) k =
     (case projectsByNameOf ps k of
        Some q \<Rightarrow> Some q
      | None \<Rightarrow> if k = ProjectName p then Some p else None)"
  by (simp add: projectsByNameOf_def fold_byName [of _ "Map.empty(ProjectName p \<mapsto> p)"]
        fold_byName [of _ Map.empty] map_add_def split: option.splits)

lemma byName_lastOfName: "projectsByNameOf (lastOfName ps) = projectsByNameOf ps"
proof (induction ps)
  case Nil
  then show ?case by simp
next
  case (Cons p ps)
  show ?case
  proof (cases "ProjectName p \<in> set (map ProjectName ps)")
    case True
    then have "ProjectName p \<in> dom (projectsByNameOf ps)" by (simp add: byName_dom)
    then have "projectsByNameOf (p # ps) = projectsByNameOf ps"
      by (intro ext) (auto simp: byName_Cons split: option.splits)
    with True Cons show ?thesis by simp
  next
    case False
    then have "projectsByNameOf (p # lastOfName ps) = projectsByNameOf (p # ps)"
      by (intro ext) (simp add: byName_Cons Cons)
    with False show ?thesis by simp
  qed
qed

lemma lastOfName_unique: "distinct (map ProjectName ps) \<Longrightarrow> lastOfName ps = ps"
  by (induction ps) auto

lemma lastOfName_names: "ProjectName ` set (lastOfName ps) = ProjectName ` set ps"
  by (induction ps) auto

lemma lastOfName_distinct: "distinct (map ProjectName (lastOfName ps))"
  by (induction ps) (auto simp: lastOfName_names)

lemma byName_lookup:
  assumes "distinct (map ProjectName ps)" "p \<in> set ps"
  shows "projectsByNameOf ps (ProjectName p) = Some p"
proof -
  have d: "distinct (map fst (rev (map (\<lambda>p. (ProjectName p, p)) ps)))"
    using assms(1) by (simp add: rev_map [symmetric] comp_def)
  have "(ProjectName p, p) \<in> set (rev (map (\<lambda>p. (ProjectName p, p)) ps))"
    using assms(2) by auto
  with d have "map_of (rev (map (\<lambda>p. (ProjectName p, p)) ps)) (ProjectName p) = Some p"
    by (rule map_of_is_SomeI)
  then show ?thesis by (simp add: projectsByNameOf_def fold_byName)
qed

lemma rangeOver_total:
  "\<forall>k \<in> set order. byName k \<noteq> None \<Longrightarrow> rangeOver order byName = map (\<lambda>k. the (byName k)) order"
  unfolding rangeOver_def by (induction order) (auto simp: List.map_filter_simps)

lemma rangeOver_distinct_names:
  assumes names: "distinct (map ProjectName ps)"
    and keys: "set order = ProjectName ` set ps" "distinct order"
  shows "mset (rangeOver order (projectsByNameOf ps)) = mset ps"
proof -
  let ?byName = "projectsByNameOf ps"
  have all: "\<forall>k \<in> set order. ?byName k \<noteq> None"
    using keys(1) byName_dom [of ps] by (auto simp: domIff)
  have "mset (rangeOver order ?byName) = image_mset (\<lambda>k. the (?byName k)) (mset order)"
    by (simp add: rangeOver_total [OF all])
  also have "mset order = mset (map ProjectName ps)"
    using keys names set_eq_iff_mset_eq_distinct [of order "map ProjectName ps"] by simp
  also have "image_mset (\<lambda>k. the (?byName k)) (mset (map ProjectName ps))
             = image_mset (\<lambda>p. the (?byName (ProjectName p))) (mset ps)"
    by (simp add: image_mset.compositionality comp_def)
  also have "\<dots> = image_mset (\<lambda>p. p) (mset ps)"
    by (rule image_mset_cong) (simp add: byName_lookup [OF names])
  also have "\<dots> = mset ps" by simp
  finally show ?thesis .
qed

text \<open>
  A loop over the map visits, in some order, the last row of every name, each once.
\<close>

lemma rangeOver_covers:
  assumes keys: "set order = ProjectName ` set ps" "distinct order"
  shows "mset (rangeOver order (projectsByNameOf ps)) = mset (lastOfName ps)"
proof -
  have "mset (rangeOver order (projectsByNameOf (lastOfName ps))) = mset (lastOfName ps)"
    using lastOfName_distinct keys by (intro rangeOver_distinct_names) (simp_all add: lastOfName_names)
  then show ?thesis by (simp add: byName_lastOfName)
qed

text \<open>Loading the maintainers of the rows changes neither the keys nor the order of a visit.\<close>

lemma byName_map:
  assumes "\<And>p. ProjectName (f p) = ProjectName p"
  shows "projectsByNameOf (map f ps) k = map_option f (projectsByNameOf ps k)"
proof (induction ps)
  case Nil
  show ?case by (simp add: projectsByNameOf_def)
next
  case (Cons p ps)
  show ?case
    unfolding list.map byName_Cons Cons.IH by (simp add: assms split: option.splits)
qed

lemma rangeOver_map:
  "rangeOver order (\<lambda>k. map_option f (byName k)) = map f (rangeOver order byName)"
  unfolding rangeOver_def
  by (induction order) (auto simp: List.map_filter_simps split: option.splits)

lemma loadProject_columns:
  "ProjectName (loadProject db p) = ProjectName p" "ID (loadProject db p) = ID p"
  "Maturity (loadProject db p) = Maturity p" "MailingList (loadProject db p) = MailingList p"
  "OnboardingIssue (loadProject db p) = OnboardingIssue p"
  "ParentProjectID (loadProject db p) = ParentProjectID p"
  "MaintainerRef (loadProject db p) = MaintainerRef p"
  by (simp_all add: loadProject_def)

lemma rangeOver_loaded:
  "rangeOver order (projectsByNameOf (loadedProjects db))
   = map (loadProject db) (rangeOver order (projectsByNameOf (filter live (projects db))))"
proof -
  have "projectsByNameOf (loadedProjects db)
        = (\<lambda>k. map_option (loadProject db) (projectsByNameOf (filter live (projects db)) k))"
    unfolding loadedProjects_def by (intro ext byName_map) (simp add: loadProject_columns)
  then show ?thesis by (simp add: rangeOver_map)
qed

lemma preloadCompany_Email: "Email (preloadCompany db m) = Email m"
  by (simp add: preloadCompany_def split: option.splits list.splits)

text \<open>
  The spec that the loop computes for a loaded row is the one the specification
  describes for the row, whenever the first loop has visited the known projects.
\<close>

lemma projectSpecFor_mirrors:
  assumes known: "set rows1 = set (knownProjects db)"
  shows "mirrorsRow lw tr db p
           (projectSpecFor lw tr (parentNameByIDOf (map (loadProject db) rows1)) (loadProject db p))"
proof -
  let ?byID = "parentNameByIDOf (map (loadProject db) rows1)"
  let ?spec = "projectSpecFor lw tr ?byID (loadProject db p)"
  have keys: "dom ?byID = ID ` set (knownProjects db)"
    using parentNameByIDOf_dom [of "map (loadProject db) rows1"] known
    by (simp add: image_image loadProject_columns)
  have "?byID k = None \<longleftrightarrow> k \<notin> ID ` set (knownProjects db)" for k
    unfolding keys [symmetric] by (simp add: domIff)
  then have none: "?byID k = None \<longleftrightarrow> \<not> (\<exists>q \<in> set (knownProjects db). ID q = k)" for k
    by (auto simp: image_iff)
  have some: "?byID k = Some n \<Longrightarrow> \<exists>q \<in> set (knownProjects db). ID q = k \<and> ProjectName q = n" for k n
    using parentNameByIDOf_Some [of "map (loadProject db) rows1" k n] known
    by (auto simp: loadProject_columns)
  have parent: "case ParentProjectRef ?spec of
            None \<Rightarrow> \<not> (\<exists>q \<in> set (knownProjects db). ParentProjectID p = Some (ID q))
          | Some parent \<Rightarrow>
              (\<exists>q \<in> set (knownProjects db). ParentProjectID p = Some (ID q)
                 \<and> parent = refTo (sanitizeName lw tr (ProjectName q)))"
  proof (cases "ParentProjectID p")
    case None
    then show ?thesis by (simp add: projectSpecFor_def loadProject_columns)
  next
    case (Some k)
    show ?thesis
    proof (cases "?byID k")
      case None
      with Some none [of k] show ?thesis
        by (auto simp: projectSpecFor_def loadProject_columns)
    next
      case found: (Some n)
      from some [OF found] obtain q where "q \<in> set (knownProjects db)" "ID q = k" "ProjectName q = n"
        by blast
      with Some found show ?thesis
        by (auto simp: projectSpecFor_def loadProject_columns)
    qed
  qed
  have refs: "MaintainerRefs ?spec =
            map (\<lambda>m. refTo (sanitizeName lw tr (Email m)))
              (filter (\<lambda>m. live m
                         \<and> (\<exists>j \<in> set (maintainer_projects db).
                               MaintainerID j = ID m \<and> ProjectID j = ID p))
                 (maintainers db))"
    by (simp add: projectSpecFor_def loadProject_def preloadMaintainers_def linkedTo_def
          comp_def preloadCompany_Email)
  have rest: "DisplayName ?spec = ProjectName p" "SpecMaturity ?spec = Maturity p"
    "case MailingList p of None \<Rightarrow> SpecMailingList ?spec = [] | Some v \<Rightarrow> SpecMailingList ?spec = v"
    "case OnboardingIssue p of None \<Rightarrow> SpecOnboardingIssue ?spec = [] | Some v \<Rightarrow> SpecOnboardingIssue ?spec = v"
    "MaintainerLeadRef ?spec =
            (if MaintainerRef p \<noteq> []
             then Some (refTo (sanitizeName lw tr (MaintainerRef p))) else None)"
    "FoundationRef ?spec = None" "CollaboratorRefs ?spec = []" "ServiceRefs ?spec = []" "Tags ?spec = []"
    by (simp_all add: projectSpecFor_def loadProject_columns split: option.splits)
  show ?thesis
    unfolding mirrorsRow_def using rest refs parent by (intro conjI)
qed

text \<open>What one pass of the loop body does, read on the calls it makes.\<close>

lemma syncProject_done:
  assumes "syncProject lw tr ns byID c q = (None, c1)"
  shows "case clientGet c ns (sanitizeName lw tr (ProjectName q)) of
           Inl err \<Rightarrow> err = NotFound
             \<and> clientCreate c (newProjectResource (sanitizeName lw tr (ProjectName q)) ns
                                (projectSpecFor lw tr byID q)) = Inr c1
         | Inr obj \<Rightarrow>
             if projectSpecEqual (Spec obj) (projectSpecFor lw tr byID q) then c1 = c
             else clientUpdate c (obj\<lparr>Spec := projectSpecFor lw tr byID q\<rparr>) = Inr c1"
  using assms by (auto simp: syncProject_def Let_def split: sum.splits if_splits)

lemma syncProject_failed:
  assumes "syncProject lw tr ns byID c q = (Some err, c1)"
  shows "c1 = c
       \<and> (case clientGet c ns (sanitizeName lw tr (ProjectName q)) of
            Inl e \<Rightarrow>
              if e = NotFound
              then (\<exists>e'. clientCreate c (newProjectResource (sanitizeName lw tr (ProjectName q)) ns
                                          (projectSpecFor lw tr byID q)) = Inl e'
                         \<and> err = CreateFailed (sanitizeName lw tr (ProjectName q)) e')
              else err = GetFailed e
          | Inr obj \<Rightarrow>
              \<not> projectSpecEqual (Spec obj) (projectSpecFor lw tr byID q)
              \<and> (\<exists>e'. clientUpdate c (obj\<lparr>Spec := projectSpecFor lw tr byID q\<rparr>) = Inl e'
                       \<and> err = UpdateFailed (sanitizeName lw tr (ProjectName q)) e'))"
  using assms by (auto simp: syncProject_def Let_def split: sum.splits if_splits)

text \<open>
  The loop as a chain of clusters: one for every pass that returned no error, and the
  pass after the last one, if the rows are not used up, is the one that failed.
\<close>

lemma syncEach_chain:
  assumes "syncEach lw tr ns byID c qs = (res, c')"
  shows "\<exists>cs. cs \<noteq> [] \<and> hd cs = c \<and> last cs = c' \<and> length cs \<le> Suc (length qs)
      \<and> (res = None \<longleftrightarrow> length cs = Suc (length qs))
      \<and> (\<forall>i < length cs - 1. syncProject lw tr ns byID (cs ! i) (qs ! i) = (None, cs ! Suc i))
      \<and> (\<forall>err. res = Some err \<longrightarrow>
            syncProject lw tr ns byID (last cs) (qs ! (length cs - 1)) = (Some err, last cs))"
  using assms
proof (induction qs arbitrary: c)
  case Nil
  then have "res = None" "c' = c" by simp_all
  then show ?case by (intro exI [of _ "[c]"]) simp
next
  case (Cons q qs)
  obtain r c1 where step: "syncProject lw tr ns byID c q = (r, c1)"
    by (cases "syncProject lw tr ns byID c q")
  show ?case
  proof (cases r)
    case (Some err)
    with step Cons.prems have res: "res = Some err" "c' = c1" by simp_all
    from syncProject_failed [OF step [unfolded Some]] have "c1 = c" by simp
    with res step Some show ?thesis by (intro exI [of _ "[c]"]) simp
  next
    case None
    with step Cons.prems have "syncEach lw tr ns byID c1 qs = (res, c')" by simp
    from Cons.IH [OF this] obtain cs where cs: "cs \<noteq> []" "hd cs = c1" "last cs = c'"
      "length cs \<le> Suc (length qs)" "res = None \<longleftrightarrow> length cs = Suc (length qs)"
      "\<forall>i < length cs - 1. syncProject lw tr ns byID (cs ! i) (qs ! i) = (None, cs ! Suc i)"
      "\<forall>err. res = Some err \<longrightarrow>
            syncProject lw tr ns byID (last cs) (qs ! (length cs - 1)) = (Some err, last cs)"
      by blast
    let ?cs = "c # cs"
    have first: "?cs ! Suc 0 = c1" using cs(1,2) by (simp add: hd_conv_nth)
    have steps: "\<forall>i < length ?cs - 1.
        syncProject lw tr ns byID (?cs ! i) ((q # qs) ! i) = (None, ?cs ! Suc i)"
    proof (intro allI impI)
      fix i
      assume i: "i < length ?cs - 1"
      show "syncProject lw tr ns byID (?cs ! i) ((q # qs) ! i) = (None, ?cs ! Suc i)"
      proof (cases i)
        case 0
        with step None first show ?thesis by simp
      next
        case (Suc j)
        with i have "j < length cs - 1" by simp
        with cs(6) Suc show ?thesis by simp
      qed
    qed
    have failed: "\<forall>err. res = Some err \<longrightarrow>
        syncProject lw tr ns byID (last ?cs) ((q # qs) ! (length ?cs - 1)) = (Some err, last ?cs)"
    proof (intro allI impI)
      fix err
      assume "res = Some err"
      with cs(7) have "syncProject lw tr ns byID (last cs) (qs ! (length cs - 1)) = (Some err, last cs)"
        by simp
      moreover have "(q # qs) ! (length ?cs - 1) = qs ! (length cs - 1)"
        using cs(1) by (cases cs) simp_all
      ultimately show "syncProject lw tr ns byID (last ?cs) ((q # qs) ! (length ?cs - 1)) = (Some err, last ?cs)"
        using cs(1) by simp
    qed
    have "?cs \<noteq> []" "hd ?cs = c" "last ?cs = c'" "length ?cs \<le> Suc (length (q # qs))"
      "res = None \<longleftrightarrow> length ?cs = Suc (length (q # qs))"
      using cs by simp_all
    with steps failed show ?thesis by (intro exI [of _ ?cs] conjI)
  qed
qed

text \<open>
  C4, for the rows that the job knows. When the database answers and each of the two
  loops visits every key of the map once, \<open>syncProjects\<close> visits the known projects,
  which are the last visible row of every name, each once and in some order; they are
  all the visible rows when names are unique. It passes through a chain of clusters, from the one it starts on to
  the one it leaves, with one step for each row visited without an error. At each step
  there is a spec that mirrors the row: the row's name as display name, its maturity,
  its mailing list and onboarding issue (empty when the row has none), one maintainer
  reference for each associated maintainer, named by the sanitized email, and a parent
  reference exactly when \<open>ParentProjectID\<close> is the key of a known project. When \<open>Get\<close>
  reports the resource of the sanitized name absent, the step creates it with this spec;
  when \<open>Get\<close> returns it, the step leaves the cluster as it is if \<open>projectSpecEqual\<close>
  holds of the stored spec and this one, and updates the resource with this spec
  otherwise. The run returns no error exactly when every known project has had its
  step; otherwise the error is that of the call that failed on the next row.
\<close>

theorem syncProjects_mirrors_project_rows:
  assumes up: "\<not> unavailable db"
    and order1: "set order1 = ProjectName ` set (filter live (projects db))" "distinct order1"
    and order2: "set order2 = ProjectName ` set (filter live (projects db))" "distinct order2"
    and run: "syncProjects lw tr order1 order2 db c0 ns = (res, c')"
  shows "\<exists>rows cs.
      mset rows = mset (knownProjects db)
    \<and> (distinct (map ProjectName (filter live (projects db)))
          \<longrightarrow> mset rows = mset (filter live (projects db)))
    \<and> cs \<noteq> [] \<and> hd cs = c0 \<and> last cs = c' \<and> length cs \<le> Suc (length rows)
    \<and> (res = None \<longleftrightarrow> length cs = Suc (length rows))
    \<and> (\<forall>i < length cs - 1. \<exists>spec.
          mirrorsRow lw tr db (rows ! i) spec
          \<and> (case clientGet (cs ! i) ns (sanitizeName lw tr (ProjectName (rows ! i))) of
               Inl err \<Rightarrow> err = NotFound
                 \<and> clientCreate (cs ! i)
                      (newProjectResource (sanitizeName lw tr (ProjectName (rows ! i))) ns spec)
                    = Inr (cs ! Suc i)
             | Inr obj \<Rightarrow>
                 if projectSpecEqual (Spec obj) spec then cs ! Suc i = cs ! i
                 else clientUpdate (cs ! i) (obj\<lparr>Spec := spec\<rparr>) = Inr (cs ! Suc i)))
    \<and> (\<forall>err. res = Some err \<longrightarrow> (\<exists>spec.
          mirrorsRow lw tr db (rows ! (length cs - 1)) spec
          \<and> (case clientGet c' ns (sanitizeName lw tr (ProjectName (rows ! (length cs - 1)))) of
               Inl e \<Rightarrow>
                 if e = NotFound
                 then (\<exists>e'. clientCreate c'
                              (newProjectResource
                                 (sanitizeName lw tr (ProjectName (rows ! (length cs - 1)))) ns spec)
                            = Inl e'
                          \<and> err = CreateFailed (sanitizeName lw tr (ProjectName (rows ! (length cs - 1)))) e')
                 else err = GetFailed e
             | Inr obj \<Rightarrow>
                 \<not> projectSpecEqual (Spec obj) spec
                 \<and> (\<exists>e'. clientUpdate c' (obj\<lparr>Spec := spec\<rparr>) = Inl e'
                          \<and> err = UpdateFailed (sanitizeName lw tr (ProjectName (rows ! (length cs - 1)))) e'))))"
proof -
  let ?visible = "filter live (projects db)"
  let ?rows1 = "rangeOver order1 (projectsByNameOf ?visible)"
  let ?rows = "rangeOver order2 (projectsByNameOf ?visible)"
  let ?byID = "parentNameByIDOf (map (loadProject db) ?rows1)"
  have names: "ProjectName ` set (loadedProjects db) = ProjectName ` set ?visible"
    by (simp add: loadedProjects_def image_image loadProject_columns)
  have each: "syncProjects lw tr order1 order2 db c0 ns
              = syncEach lw tr ns ?byID c0 (map (loadProject db) ?rows)"
    using up by (simp add: syncProjects_def GetProjectMapByName_def rangeOver_loaded)
  have rows: "mset ?rows = mset (knownProjects db)"
    unfolding knownProjects_def using order2 by (rule rangeOver_covers)
  have all: "distinct (map ProjectName ?visible) \<longrightarrow> mset ?rows = mset ?visible"
    using rows by (simp add: knownProjects_def lastOfName_unique)
  have "mset ?rows1 = mset (knownProjects db)"
    unfolding knownProjects_def using order1 by (rule rangeOver_covers)
  then have known: "set ?rows1 = set (knownProjects db)"
    by (rule mset_eq_setD)
  note mirrors = projectSpecFor_mirrors [OF known, of lw tr]
  from run each have "syncEach lw tr ns ?byID c0 (map (loadProject db) ?rows) = (res, c')"
    by simp
  from syncEach_chain [OF this] obtain cs where cs: "cs \<noteq> []" "hd cs = c0" "last cs = c'"
    "length cs \<le> Suc (length ?rows)" "res = None \<longleftrightarrow> length cs = Suc (length ?rows)"
    and steps: "\<forall>i < length cs - 1.
        syncProject lw tr ns ?byID (cs ! i) (map (loadProject db) ?rows ! i) = (None, cs ! Suc i)"
    and failed: "\<forall>err. res = Some err \<longrightarrow>
        syncProject lw tr ns ?byID (last cs) (map (loadProject db) ?rows ! (length cs - 1))
          = (Some err, last cs)"
    by auto
  have passed: "\<forall>i < length cs - 1. \<exists>spec.
          mirrorsRow lw tr db (?rows ! i) spec
          \<and> (case clientGet (cs ! i) ns (sanitizeName lw tr (ProjectName (?rows ! i))) of
               Inl err \<Rightarrow> err = NotFound
                 \<and> clientCreate (cs ! i)
                      (newProjectResource (sanitizeName lw tr (ProjectName (?rows ! i))) ns spec)
                    = Inr (cs ! Suc i)
             | Inr obj \<Rightarrow>
                 if projectSpecEqual (Spec obj) spec then cs ! Suc i = cs ! i
                 else clientUpdate (cs ! i) (obj\<lparr>Spec := spec\<rparr>) = Inr (cs ! Suc i))"
  proof (intro allI impI)
    fix i
    assume i: "i < length cs - 1"
    with cs(4) have inside: "i < length ?rows" by simp
    from steps i
    have "syncProject lw tr ns ?byID (cs ! i) (map (loadProject db) ?rows ! i) = (None, cs ! Suc i)"
      by blast
    then have "syncProject lw tr ns ?byID (cs ! i) (loadProject db (?rows ! i)) = (None, cs ! Suc i)"
      using inside by simp
    from syncProject_done [OF this] mirrors [of "?rows ! i"]
    show "\<exists>spec.
          mirrorsRow lw tr db (?rows ! i) spec
          \<and> (case clientGet (cs ! i) ns (sanitizeName lw tr (ProjectName (?rows ! i))) of
               Inl err \<Rightarrow> err = NotFound
                 \<and> clientCreate (cs ! i)
                      (newProjectResource (sanitizeName lw tr (ProjectName (?rows ! i))) ns spec)
                    = Inr (cs ! Suc i)
             | Inr obj \<Rightarrow>
                 if projectSpecEqual (Spec obj) spec then cs ! Suc i = cs ! i
                 else clientUpdate (cs ! i) (obj\<lparr>Spec := spec\<rparr>) = Inr (cs ! Suc i))"
      unfolding loadProject_columns by (intro exI [of _ "projectSpecFor lw tr ?byID (loadProject db (?rows ! i))"] conjI)
  qed
  have stopped: "\<forall>err. res = Some err \<longrightarrow> (\<exists>spec.
          mirrorsRow lw tr db (?rows ! (length cs - 1)) spec
          \<and> (case clientGet c' ns (sanitizeName lw tr (ProjectName (?rows ! (length cs - 1)))) of
               Inl e \<Rightarrow>
                 if e = NotFound
                 then (\<exists>e'. clientCreate c'
                              (newProjectResource
                                 (sanitizeName lw tr (ProjectName (?rows ! (length cs - 1)))) ns spec)
                            = Inl e'
                          \<and> err = CreateFailed (sanitizeName lw tr (ProjectName (?rows ! (length cs - 1)))) e')
                 else err = GetFailed e
             | Inr obj \<Rightarrow>
                 \<not> projectSpecEqual (Spec obj) spec
                 \<and> (\<exists>e'. clientUpdate c' (obj\<lparr>Spec := spec\<rparr>) = Inl e'
                          \<and> err = UpdateFailed (sanitizeName lw tr (ProjectName (?rows ! (length cs - 1)))) e')))"
  proof (intro allI impI)
    fix err
    assume err: "res = Some err"
    with cs(4,5) have "length cs \<le> length ?rows" by simp
    with cs(1) have inside: "length cs - 1 < length ?rows" by (cases cs) simp_all
    from failed err
    have "syncProject lw tr ns ?byID (last cs) (map (loadProject db) ?rows ! (length cs - 1))
            = (Some err, last cs)"
      by blast
    then have "syncProject lw tr ns ?byID c' (loadProject db (?rows ! (length cs - 1))) = (Some err, c')"
      using inside cs(3) by simp
    from syncProject_failed [OF this] mirrors [of "?rows ! (length cs - 1)"]
    show "\<exists>spec.
          mirrorsRow lw tr db (?rows ! (length cs - 1)) spec
          \<and> (case clientGet c' ns (sanitizeName lw tr (ProjectName (?rows ! (length cs - 1)))) of
               Inl e \<Rightarrow>
                 if e = NotFound
                 then (\<exists>e'. clientCreate c'
                              (newProjectResource
                                 (sanitizeName lw tr (ProjectName (?rows ! (length cs - 1)))) ns spec)
                            = Inl e'
                          \<and> err = CreateFailed (sanitizeName lw tr (ProjectName (?rows ! (length cs - 1)))) e')
                 else err = GetFailed e
             | Inr obj \<Rightarrow>
                 \<not> projectSpecEqual (Spec obj) spec
                 \<and> (\<exists>e'. clientUpdate c' (obj\<lparr>Spec := spec\<rparr>) = Inl e'
                          \<and> err = UpdateFailed (sanitizeName lw tr (ProjectName (?rows ! (length cs - 1)))) e'))"
      unfolding loadProject_columns
      by (intro exI [of _ "projectSpecFor lw tr ?byID (loadProject db (?rows ! (length cs - 1)))"] conjI) simp_all
  qed
  show ?thesis
    by (rule exI [of _ ?rows], rule exI [of _ cs]) (intro conjI rows all cs passed stopped)
qed

text \<open>
  The claim as it is written fails on the database that a second insert of the name
  \<open>kubernetes\<close> leaves. The first row of that name is visible and has alice and bob as
  maintainers, and the cluster holds no resource of the name; the only resource that the
  run creates under it is that of the second row, with no maintainer reference, and
  the run returns no error.
\<close>

theorem syncProjects_skips_row_of_repeated_name:
  "project1 \<in> set (projects duplicateNameData)
   \<and> live project1
   \<and> ProjectName project1 = ''kubernetes''
   \<and> \<lparr>MaintainerID = 1, ProjectID = ID project1\<rparr> \<in> set (maintainer_projects duplicateNameData)
   \<and> \<lparr>MaintainerID = 2, ProjectID = ID project1\<rparr> \<in> set (maintainer_projects duplicateNameData)
   \<and> resources emptyCluster = []
   \<and> fst (syncProjects asciiToLower asciiTrimSpace visitOrder visitOrder duplicateNameData
             emptyCluster ''maintainerd'') = None
   \<and> map ObjectName (resources (snd (syncProjects asciiToLower asciiTrimSpace visitOrder visitOrder
          duplicateNameData emptyCluster ''maintainerd'')))
       = [''prometheus'', ''kubernetes'', ''empty-project'']
   \<and> map MaintainerRefs (map Spec (resources (snd (syncProjects asciiToLower asciiTrimSpace
          visitOrder visitOrder duplicateNameData emptyCluster ''maintainerd''))))
       = [ [refTo ''bob-example.com'', refTo ''charlie-example.com''], [], [] ]"
  by code_simp

theorem syncProjects_mirrors_project_rows_witness:
  "\<not> unavailable seedTestData
   \<and> set visitOrder = ProjectName ` set (filter live (projects seedTestData))
   \<and> distinct visitOrder
   \<and> fst (syncProjects asciiToLower asciiTrimSpace visitOrder visitOrder seedTestData
             emptyCluster ''maintainerd'') = None
   \<and> map ObjectName (resources (snd (syncProjects asciiToLower asciiTrimSpace visitOrder visitOrder
          seedTestData emptyCluster ''maintainerd'')))
       = [''prometheus'', ''kubernetes'', ''empty-project'']
   \<and> map MaintainerRefs (map Spec (resources (snd (syncProjects asciiToLower asciiTrimSpace
          visitOrder visitOrder seedTestData emptyCluster ''maintainerd''))))
       = [ [refTo ''bob-example.com'', refTo ''charlie-example.com''],
           [refTo ''alice-example.com'', refTo ''bob-example.com''], [] ]
   \<and> (\<exists>rows cs. mset rows = mset [project1, project2, emptyProject]
          \<and> length cs = 4 \<and> hd cs = emptyCluster
          \<and> last cs = snd (syncProjects asciiToLower asciiTrimSpace visitOrder visitOrder
                             seedTestData emptyCluster ''maintainerd'')
          \<and> (\<exists>spec. mirrorsRow asciiToLower asciiTrimSpace seedTestData (rows ! 0) spec
                \<and> clientCreate (cs ! 0)
                     (newProjectResource
                        (sanitizeName asciiToLower asciiTrimSpace (ProjectName (rows ! 0)))
                        ''maintainerd'' spec)
                   = Inr (cs ! 1)))"
proof -
  let ?run = "syncProjects asciiToLower asciiTrimSpace visitOrder visitOrder seedTestData
                emptyCluster ''maintainerd''"
  have up: "\<not> unavailable seedTestData" by (simp add: seedTestData_def)
  have keys: "set visitOrder = ProjectName ` set (filter live (projects seedTestData))" by code_simp
  have d: "distinct visitOrder" by code_simp
  have run: "?run = (None, snd ?run)" by code_simp
  have known: "knownProjects seedTestData = [project1, project2, emptyProject]" by code_simp
  have names: "map ObjectName (resources (snd ?run)) = [''prometheus'', ''kubernetes'', ''empty-project'']"
    by code_simp
  have refs: "map MaintainerRefs (map Spec (resources (snd ?run)))
       = [ [refTo ''bob-example.com'', refTo ''charlie-example.com''],
           [refTo ''alice-example.com'', refTo ''bob-example.com''], [] ]"
    by code_simp
  from syncProjects_mirrors_project_rows [OF up keys d keys d run]
  obtain rows cs where rows: "mset rows = mset (knownProjects seedTestData)"
    and cs: "hd cs = emptyCluster" "last cs = snd ?run" "length cs = Suc (length rows)"
    and steps: "\<forall>i < length cs - 1. \<exists>spec.
          mirrorsRow asciiToLower asciiTrimSpace seedTestData (rows ! i) spec
          \<and> (case clientGet (cs ! i) ''maintainerd''
                     (sanitizeName asciiToLower asciiTrimSpace (ProjectName (rows ! i))) of
               Inl err \<Rightarrow> err = NotFound
                 \<and> clientCreate (cs ! i)
                      (newProjectResource
                         (sanitizeName asciiToLower asciiTrimSpace (ProjectName (rows ! i)))
                         ''maintainerd'' spec)
                    = Inr (cs ! Suc i)
             | Inr obj \<Rightarrow>
                 if projectSpecEqual (Spec obj) spec then cs ! Suc i = cs ! i
                 else clientUpdate (cs ! i) (obj\<lparr>Spec := spec\<rparr>) = Inr (cs ! Suc i))"
    by auto
  from rows have "length rows = length (knownProjects seedTestData)" by (rule mset_eq_length)
  with known cs(3) have len: "length cs = 4" by simp
  have empty: "clientGet emptyCluster ns name = Inl NotFound" for ns name
    by (simp add: clientGet_def emptyCluster_def)
  from cs(1) len have first: "cs ! 0 = emptyCluster" by (cases cs) simp_all
  from steps len have "\<exists>spec.
          mirrorsRow asciiToLower asciiTrimSpace seedTestData (rows ! 0) spec
          \<and> (case clientGet (cs ! 0) ''maintainerd''
                     (sanitizeName asciiToLower asciiTrimSpace (ProjectName (rows ! 0))) of
               Inl err \<Rightarrow> err = NotFound
                 \<and> clientCreate (cs ! 0)
                      (newProjectResource
                         (sanitizeName asciiToLower asciiTrimSpace (ProjectName (rows ! 0)))
                         ''maintainerd'' spec)
                    = Inr (cs ! Suc 0)
             | Inr obj \<Rightarrow>
                 if projectSpecEqual (Spec obj) spec then cs ! Suc 0 = cs ! 0
                 else clientUpdate (cs ! 0) (obj\<lparr>Spec := spec\<rparr>) = Inr (cs ! Suc 0))"
    by simp
  then have created: "\<exists>spec. mirrorsRow asciiToLower asciiTrimSpace seedTestData (rows ! 0) spec
                \<and> clientCreate (cs ! 0)
                     (newProjectResource
                        (sanitizeName asciiToLower asciiTrimSpace (ProjectName (rows ! 0)))
                        ''maintainerd'' spec)
                   = Inr (cs ! 1)"
    unfolding first by (simp add: empty)
  have none: "fst ?run = None" using run by (metis fst_conv)
  have chain: "\<exists>rows cs. mset rows = mset [project1, project2, emptyProject]
          \<and> length cs = 4 \<and> hd cs = emptyCluster \<and> last cs = snd ?run
          \<and> (\<exists>spec. mirrorsRow asciiToLower asciiTrimSpace seedTestData (rows ! 0) spec
                \<and> clientCreate (cs ! 0)
                     (newProjectResource
                        (sanitizeName asciiToLower asciiTrimSpace (ProjectName (rows ! 0)))
                        ''maintainerd'' spec)
                   = Inr (cs ! 1))"
    using rows known len cs(1,2) created by (intro exI [of _ rows] exI [of _ cs]) simp
  show ?thesis by (intro conjI up keys d none names refs chain)
qed

section \<open>Properties of the workspace operator\<close>

lemma createCalls_append: "createCalls (xs @ ys) = createCalls xs @ createCalls ys"
  by (induction xs rule: createCalls.induct) auto

lemma createCalls_gets: "createCalls (replicate k (GetWorkspaceCall n)) = []"
  by (induction k) auto

lemma GetWorkspace_effect:
  assumes "GetWorkspace srv n = (res, srv1)"
  shows "workspaces srv1 = workspaces srv
       \<and> requests srv1 = requests srv @ (if n = [] then [] else [GetWorkspaceCall n])
       \<and> (res = Inr None \<longrightarrow> n \<noteq> [] \<and> \<not> hasWorkspace srv n)
       \<and> (\<forall>info. res = Inr (Some info) \<longrightarrow> n \<noteq> [] \<and> hasWorkspace srv n)"
  using assms
  by (auto simp: GetWorkspace_def received_def Let_def hasWorkspace_def list_ex_iff find_None_iff find_Some_iff
           split: if_splits option.splits)

lemma CreateWorkspace_effect:
  assumes "CreateWorkspace srv n pns pname wsType = (res, srv2)" "n \<noteq> []"
  shows "requests srv2 = requests srv @ [CreateWorkspaceCall n]
       \<and> (workspaces srv2 = workspaces srv
            \<or> (\<not> hasWorkspace srv n \<and> (\<exists>ws. WorkspaceName ws = n \<and> workspaces srv2 = workspaces srv @ [ws])))
       \<and> progress srv2 = progress srv"
  using assms
  by (auto simp: CreateWorkspace_def received_def Let_def split: if_splits)

lemma advance_names: "map WorkspaceName (workspaces (advance n phase srv)) = map WorkspaceName (workspaces srv)"
  by (simp add: advance_def comp_def)

lemma advance_requests: "requests (advance n phase srv) = requests srv"
  by (simp add: advance_def)

lemma pollUntilReady_effect:
  assumes "pollUntilReady n phases lastInfo srv = (res, srv3)" "n \<noteq> []"
  shows "map WorkspaceName (workspaces srv3) = map WorkspaceName (workspaces srv)
       \<and> (\<exists>k. requests srv3 = requests srv @ replicate k (GetWorkspaceCall n))"
  using assms
proof (induction n phases lastInfo srv arbitrary: res srv3 rule: pollUntilReady.induct)
  case (1 workspaceName lastInfo srv)
  then have "srv3 = srv\<lparr>progress := []\<rparr>" by simp
  then show ?case by (auto intro: exI [of _ 0])
next
  case (2 workspaceName phase phases lastInfo srv)
  obtain r srv1 where g: "GetWorkspace (advance workspaceName phase srv) workspaceName = (r, srv1)"
    by (cases "GetWorkspace (advance workspaceName phase srv) workspaceName")
  from GetWorkspace_effect [OF g] "2.prems"(2)
  have w1: "map WorkspaceName (workspaces srv1) = map WorkspaceName (workspaces srv)"
    and r1: "requests srv1 = requests srv @ [GetWorkspaceCall workspaceName]"
    by (simp_all add: advance_names advance_requests)
  show ?case
  proof (cases "\<exists>info. r = Inr (Some info) \<and> \<not> Ready info")
    case True
    then obtain info where i: "r = Inr (Some info)" "\<not> Ready info" by blast
    with g "2.prems"(1) have rec: "pollUntilReady workspaceName phases (Some info) srv1 = (res, srv3)"
      by simp
    from "2.IH" [OF g [symmetric] _ _ _ rec "2.prems"(2)] i
    have "map WorkspaceName (workspaces srv3) = map WorkspaceName (workspaces srv1)
       \<and> (\<exists>k. requests srv3 = requests srv1 @ replicate k (GetWorkspaceCall workspaceName))"
      by simp
    then obtain k where "map WorkspaceName (workspaces srv3) = map WorkspaceName (workspaces srv1)"
      "requests srv3 = requests srv1 @ replicate k (GetWorkspaceCall workspaceName)" by blast
    with w1 r1 have "map WorkspaceName (workspaces srv3) = map WorkspaceName (workspaces srv)"
      "requests srv3 = requests srv @ replicate (Suc k) (GetWorkspaceCall workspaceName)"
      by simp_all
    then show ?thesis by blast
  next
    case False
    with g "2.prems"(1) have "srv3 = srv1\<lparr>progress := phases\<rparr>"
      by (auto split: sum.splits option.splits if_splits)
    with w1 r1 have "map WorkspaceName (workspaces srv3) = map WorkspaceName (workspaces srv)"
      "requests srv3 = requests srv @ replicate (Suc 0) (GetWorkspaceCall workspaceName)"
      by simp_all
    then show ?thesis by blast
  qed
qed


lemma failWith_kcp: "failWith w project reason message delay err = (out, w') \<Longrightarrow> kcp w' = kcp w"
  by (auto simp: failWith_def split: prod.splits result.splits)

lemma clientGetMetadata_name:
  "clientGetMetadata k ns name = Inr obj \<Longrightarrow> ObjectName obj = name \<and> ObjectNamespace obj = ns"
  by (auto simp: clientGetMetadata_def isResource_def find_Some_iff split: if_splits option.splits)

lemma reconcileWorkspace_shape:
  assumes run: "reconcileWorkspace lw r w project = (out, w')"
    and get: "GetWorkspace (kcp w) (lw (ObjectName project)) = (r0, srv1)"
  shows "kcp w' = srv1
       \<or> (r0 = Inr None \<and>
           (\<exists>r2 srv2 wsType.
              CreateWorkspace srv1 (lw (ObjectName project)) (ObjectNamespace project)
                (ObjectName project) wsType = (r2, srv2)
              \<and> (kcp w' = srv2
                   \<or> (\<exists>r3. WaitForWorkspaceReady srv2 (lw (ObjectName project)) = (r3, kcp w')))))"
proof (cases r0)
  case (Inl err)
  with run get show ?thesis
    by (auto simp: reconcileWorkspace_def Let_def dest!: failWith_kcp)
next
  case (Inr found)
  show ?thesis
  proof (cases found)
    case (Some info)
    with Inr run get show ?thesis
      by (auto simp: reconcileWorkspace_def Let_def split: prod.splits result.splits option.splits if_splits)
  next
    case None
    obtain u k1 where upd: "updateCondition (kube w) project
        \<lparr>Type = WorkspaceReadyCondition, Status = ConditionFalse,
         Reason = ''Creating'', Message = ''Creating workspace in kcp''\<rparr> = (u, k1)"
      by (cases "updateCondition (kube w) project
        \<lparr>Type = WorkspaceReadyCondition, Status = ConditionFalse,
         Reason = ''Creating'', Message = ''Creating workspace in kcp''\<rparr>")
    show ?thesis
    proof (cases u)
      case (Panic p)
      with None Inr run get upd show ?thesis
        by (auto simp: reconcileWorkspace_def Let_def)
    next
      case (Done logged)
      let ?wsType = "if WorkspaceType r = [] then DefaultWorkspaceType else WorkspaceType r"
      obtain r2 srv2 where cr: "CreateWorkspace srv1 (lw (ObjectName project)) (ObjectNamespace project)
                (ObjectName project) ?wsType = (r2, srv2)"
        by (cases "CreateWorkspace srv1 (lw (ObjectName project)) (ObjectNamespace project)
                (ObjectName project) ?wsType")
      show ?thesis
      proof (cases r2)
        case (Inl err)
        with Done None Inr run get upd cr have "kcp w' = srv2"
          by (auto simp: reconcileWorkspace_def Let_def dest!: failWith_kcp)
        with cr None Inr show ?thesis by blast
      next
        case created: (Inr createdInfo)
        obtain r3 srv3 where wt: "WaitForWorkspaceReady srv2 (lw (ObjectName project)) = (r3, srv3)"
          by (cases "WaitForWorkspaceReady srv2 (lw (ObjectName project))")
        with created Done None Inr run get upd cr have "kcp w' = srv3"
          by (auto simp: reconcileWorkspace_def Let_def split: prod.splits result.splits option.splits sum.splits)
        with wt cr None Inr show ?thesis by blast
      qed
    qed
  qed
qed


lemma workspacesNamed_names:
  "workspacesNamed m srv = length (filter (\<lambda>x. x = m) (map WorkspaceName (workspaces srv)))"
  by (simp add: workspacesNamed_def filter_map comp_def)

lemma workspacesNamed_absent: "\<not> hasWorkspace srv n \<Longrightarrow> workspacesNamed n srv = 0"
  by (auto simp: workspacesNamed_def hasWorkspace_def list_ex_iff filter_empty_conv)

lemma reconcileWorkspace_requests:
  assumes run: "reconcileWorkspace lw r w project = (out, w')"
  shows "\<exists>new. requests (kcp w') = requests (kcp w) @ new
     \<and> (new = [] \<or> hd new = GetWorkspaceCall (lw (ObjectName project)))
     \<and> (createCalls new = []
          \<or> (createCalls new = [lw (ObjectName project)]
              \<and> \<not> hasWorkspace (kcp w) (lw (ObjectName project))
              \<and> take 2 new = [GetWorkspaceCall (lw (ObjectName project)),
                                CreateWorkspaceCall (lw (ObjectName project))]))
     \<and> (\<forall>m. workspacesNamed m (kcp w') \<le> max 1 (workspacesNamed m (kcp w)))"
proof -
  let ?n = "lw (ObjectName project)"
  obtain r0 srv1 where get: "GetWorkspace (kcp w) ?n = (r0, srv1)"
    by (cases "GetWorkspace (kcp w) ?n")
  note g = GetWorkspace_effect [OF get]
  from reconcileWorkspace_shape [OF run get]
  consider (queried) "kcp w' = srv1"
    | (created) r2 srv2 wsType where "r0 = Inr None"
        "CreateWorkspace srv1 ?n (ObjectNamespace project) (ObjectName project) wsType = (r2, srv2)"
        "kcp w' = srv2 \<or> (\<exists>r3. WaitForWorkspaceReady srv2 ?n = (r3, kcp w'))"
    by blast
  then show ?thesis
  proof cases
    case queried
    let ?new = "if ?n = [] then [] else [GetWorkspaceCall ?n]"
    have "requests (kcp w') = requests (kcp w) @ ?new" using queried g by simp
    moreover have "?new = [] \<or> hd ?new = GetWorkspaceCall ?n" by simp
    moreover have "createCalls ?new = []" by simp
    moreover have "\<forall>m. workspacesNamed m (kcp w') \<le> max 1 (workspacesNamed m (kcp w))"
      using queried g by (simp add: workspacesNamed_def)
    ultimately show ?thesis by blast
  next
    case created
    from created(1) g have ne: "?n \<noteq> []" and absent: "\<not> hasWorkspace (kcp w) ?n" by auto
    from g ne have r1: "requests srv1 = requests (kcp w) @ [GetWorkspaceCall ?n]"
      and w1: "workspaces srv1 = workspaces (kcp w)" by auto
    from absent w1 have absent1: "\<not> hasWorkspace srv1 ?n" by (simp add: hasWorkspace_def)
    note c = CreateWorkspace_effect [OF created(2) ne]
    from c r1 have r2: "requests srv2 = requests (kcp w) @ [GetWorkspaceCall ?n, CreateWorkspaceCall ?n]"
      by simp
    have n2: "\<forall>m. workspacesNamed m srv2 \<le> max 1 (workspacesNamed m (kcp w))"
    proof
      fix m
      from c consider "workspaces srv2 = workspaces (kcp w)"
        | ws where "WorkspaceName ws = ?n" "workspaces srv2 = workspaces (kcp w) @ [ws]"
        using w1 by auto
      then show "workspacesNamed m srv2 \<le> max 1 (workspacesNamed m (kcp w))"
      proof cases
        case 1
        then show ?thesis by (simp add: workspacesNamed_def)
      next
        case 2
        then show ?thesis
          using workspacesNamed_absent [OF absent] by (auto simp: workspacesNamed_def)
      qed
    qed
    from created(3) show ?thesis
    proof
      assume k: "kcp w' = srv2"
      let ?new = "[GetWorkspaceCall ?n, CreateWorkspaceCall ?n]"
      have "requests (kcp w') = requests (kcp w) @ ?new" using k r2 by simp
      moreover have "hd ?new = GetWorkspaceCall ?n" by simp
      moreover have "createCalls ?new = [?n]" "take 2 ?new = ?new" by simp_all
      moreover have "\<forall>m. workspacesNamed m (kcp w') \<le> max 1 (workspacesNamed m (kcp w))"
        using k n2 by simp
      ultimately show ?thesis using absent by (intro exI [of _ ?new]) simp
    next
      assume "\<exists>r3. WaitForWorkspaceReady srv2 ?n = (r3, kcp w')"
      then obtain r3 where "pollUntilReady ?n (progress srv2) None srv2 = (r3, kcp w')"
        using ne by (auto simp: WaitForWorkspaceReady_def)
      from pollUntilReady_effect [OF this ne] obtain k
        where names: "map WorkspaceName (workspaces (kcp w')) = map WorkspaceName (workspaces srv2)"
          and reqs: "requests (kcp w') = requests srv2 @ replicate k (GetWorkspaceCall ?n)"
        by blast
      let ?new = "[GetWorkspaceCall ?n, CreateWorkspaceCall ?n] @ replicate k (GetWorkspaceCall ?n)"
      have "requests (kcp w') = requests (kcp w) @ ?new" using reqs r2 by simp
      moreover have "hd ?new = GetWorkspaceCall ?n" by simp
      moreover have "createCalls ?new = [?n]"
        by (simp add: createCalls_gets)
      moreover have "take 2 ?new = [GetWorkspaceCall ?n, CreateWorkspaceCall ?n]" by simp
      moreover have "\<forall>m. workspacesNamed m (kcp w') \<le> max 1 (workspacesNamed m (kcp w))"
        using n2 names by (simp add: workspacesNamed_names)
      ultimately show ?thesis using absent by (intro exI [of _ ?new]) simp
    qed
  qed
qed

text \<open>
  Whatever the cluster and the kcp server answer, the requests one call of \<open>Reconcile\<close>
  sends to kcp start with the query for the workspace named by the lowercased project
  name, if there are any. It asks kcp to create at most one workspace, that one, and
  only directly after that query, at a time when kcp stored no workspace of the name;
  when kcp stores one, it sends no creation request. So the number of workspaces of any
  name never grows beyond one.
\<close>

lemma Reconcile_requests:
  assumes run: "Reconcile lw restConfigOK newForConfigOK r w req = (out, w')"
  shows "\<exists>new. requests (kcp w') = requests (kcp w) @ new
     \<and> (new = [] \<or> hd new = GetWorkspaceCall (lw (snd req)))
     \<and> (createCalls new = []
          \<or> (createCalls new = [lw (snd req)]
              \<and> \<not> hasWorkspace (kcp w) (lw (snd req))
              \<and> take 2 new = [GetWorkspaceCall (lw (snd req)), CreateWorkspaceCall (lw (snd req))]))
     \<and> (hasWorkspace (kcp w) (lw (snd req)) \<longrightarrow> createCalls new = [])
     \<and> (\<forall>m. workspacesNamed m (kcp w') \<le> max 1 (workspacesNamed m (kcp w)))"
proof -
  have idle: "kcp w' = kcp w \<Longrightarrow> ?thesis"
    by (intro exI [of _ "[]"]) simp
  show ?thesis
  proof (cases "clientGetMetadata (kube w) (fst req) (snd req)")
    case (Inl err)
    with run have "w' = w" by (auto simp: Reconcile_def split: if_splits)
    then show ?thesis by (intro idle) simp
  next
    case (Inr project)
    from clientGetMetadata_name [OF Inr] have name: "ObjectName project = snd req" by simp
    show ?thesis
    proof (cases "LoadConfigFromCluster (kube w) (KCPConfigMapName r) (KCPSecretName r) (KCPConfigMapNamespace r)")
      case (Inl err)
      with Inr run show ?thesis by (intro idle) (auto simp: Reconcile_def dest: failWith_kcp)
    next
      case cfg: (Inr kcpConfig)
      show ?thesis
      proof (cases "NewClient restConfigOK newForConfigOK kcpConfig")
        case (Inl err)
        with cfg Inr run show ?thesis by (intro idle) (auto simp: Reconcile_def dest: failWith_kcp)
      next
        case client: (Inr kcpClient)
        with cfg Inr run have "reconcileWorkspace lw r w project = (out, w')"
          by (simp add: Reconcile_def)
        from reconcileWorkspace_requests [OF this] show ?thesis
          unfolding name by blast
      qed
    qed
  qed
qed


text \<open>
  Behind an API server that refuses to return the project in full, the condition update
  returns its error, which \<open>Reconcile\<close> logs, and the creation follows the query.
\<close>

lemma Reconcile_creates_behind_refused_read:
  "requests (kcp (snd (Reconcile asciiToLower accepts accepts operator guardedWorld kubernetesRequest)))
     = [GetWorkspaceCall ''kubernetes'', CreateWorkspaceCall ''kubernetes'',
        GetWorkspaceCall ''kubernetes'', GetWorkspaceCall ''kubernetes'']"
  by code_simp

text \<open>
  The status map that \<open>updateCondition\<close> builds always holds the conditions as a typed
  slice, so the copy panics whenever the project could be read; no call of \<open>Reconcile\<close>
  changes the conditions of any project.
\<close>

lemma setKey_holds: "list_ex (\<lambda>entry. entry = (key, v)) (setKey key v entries)"
  by (induction entries) (auto simp: setKey_def list_ex_iff)

lemma typed_conditions_not_JSON:
  "\<not> list_all (\<lambda>entry. isJSONValue (snd entry)) (setKey ''conditions'' (GoConditions cs) entries)"
proof -
  have "(''conditions'', GoConditions cs) \<in> set (setKey ''conditions'' (GoConditions cs) entries)"
    using setKey_holds [of "''conditions''" "GoConditions cs" entries] by (simp add: list_ex_iff)
  then show ?thesis by (force simp: list_all_iff)
qed

lemma updateCondition_panics:
  "updateCondition k project condition =
     (case clientGet k (ObjectNamespace project) (ObjectName project) of
        Inl err \<Rightarrow> (Done (Some (GetCurrentFailed err)), k)
      | Inr currentProject \<Rightarrow> (Panic CannotDeepCopy, k))"
  by (simp add: updateCondition_def Let_def DeepCopyJSONValue_def typed_conditions_not_JSON
           split: sum.splits)

lemma updateCondition_stores_nothing:
  "updateCondition k project condition = (res, k') \<Longrightarrow> k' = k \<and> res \<noteq> Done None"
  by (auto simp: updateCondition_panics split: sum.splits)

lemma clientUpdateMetadata_conditions:
  "clientUpdateMetadata k obj = Inr k' \<Longrightarrow> map Conditions (resources k') = map Conditions (resources k)"
  by (auto simp: clientUpdateMetadata_def comp_def split: if_splits)

lemma updateWorkspaceStatus_conditions:
  "updateWorkspaceStatus k project info = (res, k') \<Longrightarrow>
   map Conditions (resources k') = map Conditions (resources k)"
  by (auto simp: updateWorkspaceStatus_def Let_def split: sum.splits
           dest!: updateCondition_stores_nothing clientUpdateMetadata_conditions)

lemma failWith_kube: "failWith w project reason message delay err = (out, w') \<Longrightarrow> kube w' = kube w"
  by (auto simp: failWith_def split: prod.splits result.splits dest!: updateCondition_stores_nothing)

lemma reconcileWorkspace_conditions:
  assumes "reconcileWorkspace lw r w project = (out, w')"
  shows "map Conditions (resources (kube w')) = map Conditions (resources (kube w))"
  using assms
  by (auto simp: reconcileWorkspace_def Let_def
           split: prod.splits sum.splits option.splits result.splits if_splits
           dest!: updateCondition_stores_nothing updateWorkspaceStatus_conditions failWith_kube)

lemma Reconcile_records_no_condition:
  assumes "Reconcile lw restConfigOK newForConfigOK r w req = (out, w')"
  shows "map Conditions (resources (kube w')) = map Conditions (resources (kube w))"
  using assms
  by (auto simp: Reconcile_def split: sum.splits if_splits
           dest!: failWith_kube reconcileWorkspace_conditions)

text \<open>
  The same panic stands between the query and the creation. When kcp reports the
  workspace absent, \<open>Reconcile\<close> sets the condition to \<open>Creating\<close> before it calls
  \<open>CreateWorkspace\<close>; on a project that the API server returns in full the update
  panics, so no call of \<open>Reconcile\<close> on such a project creates a workspace or asks for
  one.
\<close>

lemma reconcileWorkspace_readable:
  assumes run: "reconcileWorkspace lw r w project = (out, w')"
    and readable: "clientGet (kube w) (ObjectNamespace project) (ObjectName project) = Inr current"
  shows "kcp w' = snd (GetWorkspace (kcp w) (lw (ObjectName project)))"
proof -
  obtain r0 srv1 where get: "GetWorkspace (kcp w) (lw (ObjectName project)) = (r0, srv1)"
    by (cases "GetWorkspace (kcp w) (lw (ObjectName project))")
  have "kcp w' = srv1"
  proof (cases r0)
    case (Inl err)
    with run get show ?thesis
      by (auto simp: reconcileWorkspace_def Let_def dest!: failWith_kcp)
  next
    case (Inr found)
    show ?thesis
    proof (cases found)
      case (Some info)
      with Inr run get show ?thesis
        by (auto simp: reconcileWorkspace_def Let_def
                 split: prod.splits result.splits option.splits if_splits)
    next
      case None
      with Inr run get readable show ?thesis
        by (auto simp: reconcileWorkspace_def Let_def updateCondition_panics)
    qed
  qed
  with get show ?thesis by simp
qed

lemma Reconcile_creates_nothing_when_readable:
  assumes run: "Reconcile lw restConfigOK newForConfigOK r w req = (out, w')"
    and readable: "clientGet (kube w) (fst req) (snd req) = Inr current"
  shows "workspaces (kcp w') = workspaces (kcp w)
       \<and> createCalls (requests (kcp w')) = createCalls (requests (kcp w))"
proof -
  have idle: "kcp w' = kcp w \<Longrightarrow> ?thesis" by simp
  show ?thesis
  proof (cases "clientGetMetadata (kube w) (fst req) (snd req)")
    case (Inl err)
    with run have "w' = w" by (auto simp: Reconcile_def split: if_splits)
    then show ?thesis by simp
  next
    case (Inr project)
    from clientGetMetadata_name [OF Inr]
    have key: "ObjectName project = snd req" "ObjectNamespace project = fst req" by simp_all
    show ?thesis
    proof (cases "LoadConfigFromCluster (kube w) (KCPConfigMapName r) (KCPSecretName r) (KCPConfigMapNamespace r)")
      case (Inl err)
      with Inr run show ?thesis by (intro idle) (auto simp: Reconcile_def dest: failWith_kcp)
    next
      case cfg: (Inr kcpConfig)
      show ?thesis
      proof (cases "NewClient restConfigOK newForConfigOK kcpConfig")
        case (Inl err)
        with cfg Inr run show ?thesis by (intro idle) (auto simp: Reconcile_def dest: failWith_kcp)
      next
        case client: (Inr kcpClient)
        with cfg Inr run have "reconcileWorkspace lw r w project = (out, w')"
          by (simp add: Reconcile_def)
        from reconcileWorkspace_readable [OF this] readable
        have "kcp w' = snd (GetWorkspace (kcp w) (lw (snd req)))"
          by (simp add: key)
        moreover obtain r0 srv1 where get: "GetWorkspace (kcp w) (lw (snd req)) = (r0, srv1)"
          by (cases "GetWorkspace (kcp w) (lw (snd req))")
        ultimately show ?thesis
          using GetWorkspace_effect [OF get] by (simp add: createCalls_append)
      qed
    qed
  qed
qed

text \<open>
  C5. The claim is that the operator creates one workspace for each project: it asks kcp
  for the workspace of the lowercased name and creates it when kcp reports it absent. On
  the project \<open>kubernetes\<close>, which the API server returns, with the operator's
  configuration in place and a kcp server that stores no workspace, \<open>Reconcile\<close> sends
  the query and then panics inside \<open>updateCondition\<close>: it sends no creation request and
  kcp still stores no workspace. This is the defect of C7, met on the way to the creation.
\<close>

theorem Reconcile_creates_no_workspace:
  "clientGet (kube operatorWorld) ''maintainerd'' ''kubernetes'' = Inr kubernetesResource
   \<and> workspaces (kcp operatorWorld) = []
   \<and> Reconcile asciiToLower accepts accepts operator operatorWorld kubernetesRequest
       = (Panicked CannotDeepCopy,
          operatorWorld\<lparr>kcp := emptyKcp\<lparr>requests := [GetWorkspaceCall ''kubernetes'']\<rparr>\<rparr>)
   \<and> workspaces (kcp (snd (Reconcile asciiToLower accepts accepts operator operatorWorld
                              kubernetesRequest))) = []"
  by code_simp

text \<open>
  C7. The claim is that when loading the configuration, creating the client, checking
  the workspace or creating it fails, \<open>Reconcile\<close> returns the error after it has
  recorded \<open>WorkspaceReady = False\<close> on the project. With the config map missing,
  loading the configuration fails; \<open>Reconcile\<close> then panics inside \<open>updateCondition\<close>
  instead of returning, and the project's conditions stay empty.
\<close>

theorem Reconcile_panics_on_configuration_error:
  "LoadConfigFromCluster (kube unconfiguredWorld) (KCPConfigMapName operator)
     (KCPSecretName operator) (KCPConfigMapNamespace operator) = Inl (ConfigMapUnavailable NotFound)
   \<and> Reconcile asciiToLower accepts accepts operator unconfiguredWorld kubernetesRequest
       = (Panicked CannotDeepCopy, unconfiguredWorld)
   \<and> map Conditions (resources (kube unconfiguredWorld)) = [ [] ]"
  by code_simp

section \<open>Properties of the onboarding webhook\<close>

text \<open>
  C1. A request whose payload the library does not validate against the listener's secret
  is answered with 401, and one whose validated payload the library cannot parse as an
  event is answered with 400; in both cases the handler leaves the world as it found it:
  FOSSA receives no call, the database is not written, and GitHub is asked for no comment.
\<close>

theorem handleWebhook_rejects_unvalidated:
  "(ValidatePayload lib r (Secret s) = None \<longrightarrow>
      handleWebhook fmt lib s r w = (Responded 401, w))
   \<and> (\<forall>payload. ValidatePayload lib r (Secret s) = Some payload
         \<and> ParseWebHook lib (WebHookType lib r) payload = None \<longrightarrow>
         handleWebhook fmt lib s r w = (Responded 400, w))
   \<and> (fst (handleWebhook fmt lib s r w) \<in> {Responded 401, Responded 400} \<longrightarrow>
         fossaCalls (fossaAPI (snd (handleWebhook fmt lib s r w))) = fossaCalls (fossaAPI w)
         \<and> storeDB (snd (handleWebhook fmt lib s r w)) = storeDB w
         \<and> commentRequests (githubAPI (snd (handleWebhook fmt lib s r w))) = commentRequests (githubAPI w))"
  by (auto simp: handleWebhook_def split: option.splits event.splits if_splits)

theorem handleWebhook_rejects_unvalidated_witness:
  "ValidatePayload standInLibrary forgedRequest (Secret listener) = None
   \<and> handleWebhook plainRendering standInLibrary listener forgedRequest onboardingTestWorld
       = (Responded 401, onboardingTestWorld)
   \<and> ValidatePayload standInLibrary garbledRequest (Secret listener) = Some ''{''
   \<and> ParseWebHook standInLibrary (WebHookType standInLibrary garbledRequest) ''{'' = None
   \<and> handleWebhook plainRendering standInLibrary listener garbledRequest onboardingTestWorld
       = (Responded 400, onboardingTestWorld)"
proof -
  have forged: "ValidatePayload standInLibrary forgedRequest (Secret listener) = None"
    by code_simp
  have valid: "ValidatePayload standInLibrary garbledRequest (Secret listener) = Some ''{''"
    by code_simp
  have garbled: "ParseWebHook standInLibrary (WebHookType standInLibrary garbledRequest) ''{'' = None"
    by code_simp
  from handleWebhook_rejects_unvalidated
         [of standInLibrary forgedRequest listener plainRendering onboardingTestWorld] forged
  have 1: "handleWebhook plainRendering standInLibrary listener forgedRequest onboardingTestWorld
       = (Responded 401, onboardingTestWorld)" by blast
  from handleWebhook_rejects_unvalidated
         [of standInLibrary garbledRequest listener plainRendering onboardingTestWorld] valid garbled
  have 2: "handleWebhook plainRendering standInLibrary listener garbledRequest onboardingTestWorld
       = (Responded 400, onboardingTestWorld)" by blast
  from forged valid garbled 1 2 show ?thesis by blast
qed









end
